theory Spec2Isabelle
  imports Main
begin

section \<open>Strings as the Python code uses them\<close>

text \<open>
  Request texts, paths and ticket ids are Python \<open>str\<close> values; they are modelled as
  \<open>string\<close> and read as ASCII text. \<open>lower_char\<close> is \<open>str.lower\<close> on one ASCII
  character, \<open>startswith\<close> is \<open>s.startswith(p)\<close> and \<open>str_contains s k\<close> is the
  substring test \<open>k in s\<close>.
\<close>

definition lower_char :: "char \<Rightarrow> char" where
  "lower_char c =
     (let n = (of_char c :: nat)
      in if 65 \<le> n \<and> n \<le> 90 then char_of (n + 32) else c)"

definition lower :: "string \<Rightarrow> string" where
  "lower s = map lower_char s"

fun startswith :: "string \<Rightarrow> string \<Rightarrow> bool" where
  "startswith s [] = True"
| "startswith [] (p # ps) = False"
| "startswith (c # cs) (p # ps) = (c = p \<and> startswith cs ps)"

fun str_contains :: "string \<Rightarrow> string \<Rightarrow> bool" where
  "str_contains [] k = (k = [])"
| "str_contains (c # cs) k = (startswith (c # cs) k \<or> str_contains cs k)"

text \<open>\<open>any(keyword in message_lower for keyword in ks)\<close>\<close>

definition any_keyword :: "string \<Rightarrow> string list \<Rightarrow> bool" where
  "any_keyword message_lower ks = list_ex (\<lambda>keyword. str_contains message_lower keyword) ks"

section \<open>The chatbot orchestrator (main\_orchestrator.py)\<close>

text \<open>
  A session as the in-memory session service hands it out. The service is a library
  object; what the orchestrator relies on is that every call of its \<open>create_session\<close>
  returns a session with an id not given out before, which the model renders by
  numbering the sessions in the order of their creation.
\<close>

record session =
  session_id :: nat
  app_name :: string
  user_id :: string

record session_service =
  created :: "session list"

record orchestrator =
  service :: session_service
  active_sessions :: "string \<rightharpoonup> session"

definition init_orchestrator :: orchestrator where
  "init_orchestrator = \<lparr>service = \<lparr>created = []\<rparr>, active_sessions = Map.empty\<rparr>"

definition service_create_session :: "session_service \<Rightarrow> string \<Rightarrow> string \<Rightarrow> session \<times> session_service" where
  "service_create_session svc app uid =
     (let s = \<lparr>session_id = length (created svc), app_name = app, user_id = uid\<rparr>
      in (s, svc\<lparr>created := created svc @ [s]\<rparr>))"

definition create_session :: "orchestrator \<Rightarrow> string \<Rightarrow> nat \<times> orchestrator" where
  "create_session self uid =
     (let (s, svc') = service_create_session (service self) ''enhanced_agent_engine'' uid
      in (session_id s,
          self\<lparr>service := svc', active_sessions := (active_sessions self)(uid \<mapsto> s)\<rparr>))"

abbreviation git_family :: "string \<Rightarrow> bool" where
  "git_family ml \<equiv> any_keyword ml [''git'', ''repository'', ''repo'', ''github'', ''gitlab'']"

abbreviation git_change_words :: "string \<Rightarrow> bool" where
  "git_change_words ml \<equiv> any_keyword ml [''analyze'', ''changes'', ''diff'', ''commit'']"

abbreviation jira_family :: "string \<Rightarrow> bool" where
  "jira_family ml \<equiv> any_keyword ml [''jira'', ''ticket'', ''issue'', ''story'']"

abbreviation jira_test_words :: "string \<Rightarrow> bool" where
  "jira_test_words ml \<equiv> any_keyword ml [''test'', ''case'', ''scenario'']"

abbreviation pdf_family :: "string \<Rightarrow> bool" where
  "pdf_family ml \<equiv> any_keyword ml [''pdf'', ''document'', ''file'']"

abbreviation script_family :: "string \<Rightarrow> bool" where
  "script_family ml \<equiv> any_keyword ml [''script'', ''automation'', ''generate'']"

abbreviation test_family :: "string \<Rightarrow> bool" where
  "test_family ml \<equiv> any_keyword ml [''test'', ''unittest'', ''pytest'']"

abbreviation code_family :: "string \<Rightarrow> bool" where
  "code_family ml \<equiv> any_keyword ml [''analyze'', ''code'', ''review'']"

text \<open>
  \<open>ChatbotOrchestrator._detect_request_type(self, message)\<close>: the chain of
  \<open>if\<close>/\<open>elif\<close> tests on the lower-cased message, in the order of the source.
\<close>

definition detect_request_type :: "orchestrator \<Rightarrow> string \<Rightarrow> string" where
  "detect_request_type self message =
     (let message_lower = lower message
      in if git_family message_lower then
           (if git_change_words message_lower then ''git_analysis'' else ''git_pull'')
         else if jira_family message_lower then
           (if jira_test_words message_lower then ''jira_test_generation'' else ''jira_analysis'')
         else if pdf_family message_lower then ''pdf_processing''
         else if script_family message_lower then ''script_generation''
         else if test_family message_lower then ''test_generation''
         else if code_family message_lower then ''code_analysis''
         else ''general_chat'')"

text \<open>
  \<open>_format_request\<close> builds the request data sent to the agent system. The JSON text is
  kept as a record of its fields; the clock reading stored under \<open>timestamp\<close> is left out.
\<close>

record request_data =
  user_message :: string
  request_type :: string
  task :: string

definition format_request :: "orchestrator \<Rightarrow> string \<Rightarrow> string \<Rightarrow> request_data" where
  "format_request self message rtype =
     \<lparr>user_message = message, request_type = rtype,
      task = (if rtype = ''git_analysis'' then ''analyze_git_repository''
              else if rtype = ''jira_test_generation'' then ''generate_tests_from_jira''
              else if rtype = ''pdf_processing'' then ''process_pdf_document''
              else if rtype = ''script_generation'' then ''generate_automation_script''
              else if rtype = ''test_generation'' then ''generate_test_suite''
              else if rtype = ''code_analysis'' then ''analyze_code_changes''
              else ''general_assistance'')\<rparr>"

text \<open>
  \<open>process_user_message\<close>. The runner is the agent system behind the orchestrator: given
  the user id, the session id and the request it yields a stream of events, each with or
  without a text part; it has no access to \<open>active_sessions\<close>. The result is the
  concatenated text and the orchestrator after the call. The lookup
  \<open>self.active_sessions[user_id]\<close> cannot miss, since the entry is there or has just
  been made; the branch for a missing entry is never taken.
\<close>

type_synonym runner = "string \<Rightarrow> nat \<Rightarrow> request_data \<Rightarrow> string option list"

definition final_output_of :: "string option list \<Rightarrow> string" where
  "final_output_of events = concat (map (\<lambda>e. case e of None \<Rightarrow> [] | Some t \<Rightarrow> t) events)"

definition process_user_message :: "runner \<Rightarrow> orchestrator \<Rightarrow> string \<Rightarrow> string \<Rightarrow> string \<times> orchestrator" where
  "process_user_message run_async self uid message =
     (let self1 = (if uid \<notin> dom (active_sessions self) then snd (create_session self uid) else self);
          rtype = detect_request_type self1 message;
          formatted_request = format_request self1 message rtype
      in case active_sessions self1 uid of
           Some s \<Rightarrow> (final_output_of (run_async uid (session_id s) formatted_request), self1)
         | None \<Rightarrow> ([], self1))"

section \<open>Python values and exceptions\<close>

text \<open>
  The tools return dictionaries and the agents share a state dictionary. A dictionary is
  an association list from keys to values, in the order the source writes its entries,
  and is read with \<open>map_of\<close>.
\<close>

datatype pyval =
    PNone
  | PStr string
  | PInt int
  | PBool bool
  | PList "pyval list"
  | PDict "(string \<times> pyval) list"

type_synonym pydict = "(string \<times> pyval) list"

text \<open>
  What a call can raise. \<open>TimeoutExpired\<close> and \<open>PyException\<close> (any other exception
  derived from \<open>Exception\<close>, with its text) are caught by \<open>except Exception\<close>;
  \<open>BaseExc\<close> stands for the exceptions outside that class (a keyboard interrupt, a
  system exit), which no handler of the tools catches.
\<close>

datatype py_exception =
    TimeoutExpired
  | PyException string
  | BaseExc string

section \<open>The coordinator (agents/enhanced\_coordinator.py)\<close>

text \<open>
  Agents are declared as data: a language-model agent by its name, a sequential agent by
  its name and sub-agents, a loop agent by its name, sub-agents and \<open>max_iterations\<close>.
  \<open>ImportedAgent\<close> is an agent of the original test-generation modules, which the
  coordinator imports; it is identified by the imported name.
\<close>

datatype agent =
    LlmAgent string
  | ImportedAgent string
  | SequentialAgent string "agent list"
  | LoopAgent string "agent list" nat

definition code_analyzer_agent :: agent where
  "code_analyzer_agent = ImportedAgent ''code_analyzer_agent''"

definition test_case_designer_agent :: agent where
  "test_case_designer_agent = ImportedAgent ''test_case_designer_agent''"

definition test_implementer_agent :: agent where
  "test_implementer_agent = ImportedAgent ''test_implementer_agent''"

definition test_runner_agent :: agent where
  "test_runner_agent = ImportedAgent ''test_runner_agent''"

definition debugger_and_refiner_agent :: agent where
  "debugger_and_refiner_agent = ImportedAgent ''debugger_and_refiner_agent''"

definition git_analyzer_agent :: agent where
  "git_analyzer_agent = LlmAgent ''GitAnalyzer''"

definition jira_integration_agent :: agent where
  "jira_integration_agent = LlmAgent ''JiraIntegrator''"

definition pdf_processor_agent :: agent where
  "pdf_processor_agent = LlmAgent ''PdfProcessor''"

definition script_generator_agent :: agent where
  "script_generator_agent = LlmAgent ''ScriptGenerator''"

definition strategy_planner_agent :: agent where
  "strategy_planner_agent = LlmAgent ''StrategyPlanner''"

definition git_workflow :: agent where
  "git_workflow = SequentialAgent ''GitWorkflow''
     [git_analyzer_agent, code_analyzer_agent, strategy_planner_agent]"

definition jira_workflow :: agent where
  "jira_workflow = SequentialAgent ''JiraWorkflow''
     [jira_integration_agent, test_case_designer_agent, test_implementer_agent]"

definition pdf_workflow :: agent where
  "pdf_workflow = SequentialAgent ''PdfWorkflow''
     [pdf_processor_agent, strategy_planner_agent]"

definition script_workflow :: agent where
  "script_workflow = SequentialAgent ''ScriptWorkflow''
     [script_generator_agent, test_implementer_agent]"

definition test_refinement_loop :: agent where
  "test_refinement_loop = LoopAgent ''TestRefinementLoop''
     [test_runner_agent, debugger_and_refiner_agent] 3"

definition test_generation_workflow :: agent where
  "test_generation_workflow = SequentialAgent ''TestGenerationWorkflow''
     [code_analyzer_agent, test_case_designer_agent, test_implementer_agent,
      test_refinement_loop]"

text \<open>The dictionary \<open>workflow_map\<close> of \<open>execute_selected_workflow\<close>.\<close>

definition workflow_map :: "(string \<times> agent) list" where
  "workflow_map =
     [(''git_workflow'', git_workflow),
      (''jira_workflow'', jira_workflow),
      (''pdf_workflow'', pdf_workflow),
      (''script_workflow'', script_workflow),
      (''test_generation_workflow'', test_generation_workflow)]"

text \<open>
  \<open>execute_selected_workflow\<close> reads \<open>selected_workflow\<close> from the state (the empty
  string when absent) and looks it up in \<open>workflow_map\<close>: the workflow agent when the
  key is there, \<open>None\<close> otherwise. The membership test hashes the value, so a list or
  a dictionary raises \<open>TypeError\<close>; any other value that is not a string equals no key.
\<close>

definition execute_selected_workflow :: "pydict \<Rightarrow> py_exception + agent option" where
  "execute_selected_workflow state =
     (let selected_workflow =
            (case map_of state ''selected_workflow'' of None \<Rightarrow> PStr [] | Some v \<Rightarrow> v)
      in case selected_workflow of
           PStr name \<Rightarrow> Inr (map_of workflow_map name)
         | PList _ \<Rightarrow> Inl (PyException ''unhashable type'')
         | PDict _ \<Rightarrow> Inl (PyException ''unhashable type'')
         | _ \<Rightarrow> Inr None)"

section \<open>The pipeline engine\<close>

text \<open>
  The coordinator only declares its workflows; the code that runs a \<open>SequentialAgent\<close>
  or a \<open>LoopAgent\<close> belongs to the agent framework and is not part of the sources.
  The definitions of this section therefore follow the specification of the pipeline
  engine (sections 3, 4.3 and 4.4).
\<close>

text \<open>
  Modelled from the spec: the data model of the missing engine. SharedState is a mapping
  from string keys to values with \<open>get\<close> and \<open>set\<close> and no deletion; an
  ExecutionResult is the outcome of one Stage (status, the state deltas it produced, an
  optional diagnostic); a PipelineResult is the ordered list of ExecutionResults (each
  kept with the name of its Stage), a final status and the terminal SharedState.
\<close>

type_synonym shared_state = "string \<rightharpoonup> pyval"

datatype stage_status = Success | Failure | Skipped

datatype final_status = Completed | Failed | ExhaustedIterations

record execution_result =
  status :: stage_status
  deltas :: "(string \<times> pyval) list"
  diagnostic :: "string option"

record stage =
  name :: string
  run :: "shared_state \<Rightarrow> execution_result"

record pipeline_result =
  results :: "(string \<times> execution_result) list"
  final_status :: final_status
  terminal_state :: shared_state

text \<open>
  Modelled from the spec: the missing \<open>set(key, value)\<close> of SharedState, applied to
  the deltas of a Stage in their order (overwrite allowed, nothing removed).
\<close>

definition apply_deltas :: "shared_state \<Rightarrow> (string \<times> pyval) list \<Rightarrow> shared_state" where
  "apply_deltas st ds = fold (\<lambda>(k, v) m. m(k \<mapsto> v)) ds st"

text \<open>
  Modelled from the spec: the missing run of a Sequential Pipeline (section 4.3). Stages
  run in declaration order, each on the state left by the stages before it; on the first
  Stage failure the pipeline stops with status failed and the results so far; nothing is
  rolled back.
\<close>

fun run_sequential :: "stage list \<Rightarrow> shared_state \<Rightarrow> pipeline_result" where
  "run_sequential [] st = \<lparr>results = [], final_status = Completed, terminal_state = st\<rparr>"
| "run_sequential (s # ss) st =
     (let r = run s st; st' = apply_deltas st (deltas r)
      in if status r = Failure
         then \<lparr>results = [(name s, r)], final_status = Failed, terminal_state = st'\<rparr>
         else (let rest = run_sequential ss st'
               in rest\<lparr>results := (name s, r) # results rest\<rparr>))"

text \<open>
  Modelled from the spec: the missing LoopDescriptor (section 3): a body of Stages, a
  maximum iteration count and an exit predicate on SharedState.
\<close>

record loop_descriptor =
  body :: "stage list"
  max_iterations :: nat
  exit_predicate :: "shared_state \<Rightarrow> bool"




text \<open>
  Modelled from the spec: the missing reading of a registered workflow as a Pipeline
  (WorkflowDescriptor, section 3). \<open>impl\<close> gives the Stage behind each declared
  sub-agent; a loop agent becomes a LoopDescriptor with the declared \<open>max_iterations\<close>
  and the exit predicate \<open>pred\<close>.
\<close>

fun sequential_stages_of :: "(agent \<Rightarrow> stage) \<Rightarrow> agent \<Rightarrow> stage list option" where
  "sequential_stages_of impl (SequentialAgent n subs) = Some (map impl subs)"
| "sequential_stages_of impl _ = None"

fun loop_descriptor_of :: "(agent \<Rightarrow> stage) \<Rightarrow> (shared_state \<Rightarrow> bool) \<Rightarrow> agent \<Rightarrow> loop_descriptor option" where
  "loop_descriptor_of impl pred (LoopAgent n subs k) =
     Some \<lparr>body = map impl subs, max_iterations = k, exit_predicate = pred\<rparr>"
| "loop_descriptor_of impl pred _ = None"

section \<open>Git tools (tools/git\_tools.py)\<close>

text \<open>
  \<open>clone_repository\<close> calls the operating system three times: \<open>tempfile.mkdtemp\<close>
  and \<open>subprocess.run\<close> twice. Each call either returns or raises; the environment
  record gives the outcome of each call. \<open>run_cmd\<close> takes the command line and the
  timeout in seconds, if any.
\<close>

record completed_process =
  returncode :: int
  stdout :: string
  stderr :: string

record git_env =
  mkdtemp :: "string \<Rightarrow> py_exception + string"
  run_cmd :: "string list \<Rightarrow> nat option \<Rightarrow> py_exception + completed_process"

text \<open>\<open>str.strip()\<close> on ASCII text: white space is removed at both ends.\<close>

definition is_space :: "char \<Rightarrow> bool" where
  "is_space c = (let n = (of_char c :: nat) in (9 \<le> n \<and> n \<le> 13) \<or> (28 \<le> n \<and> n \<le> 32))"

definition strip :: "string \<Rightarrow> string" where
  "strip s = rev (dropWhile is_space (rev (dropWhile is_space s)))"

text \<open>The body of the \<open>try\<close> block: a raised exception is \<open>Inl\<close>.\<close>

definition clone_repository_try :: "git_env \<Rightarrow> string \<Rightarrow> string \<Rightarrow> string option \<Rightarrow> py_exception + pydict" where
  "clone_repository_try env repository_url branch target_dir =
     (case (case target_dir of None \<Rightarrow> mkdtemp env ''git_analysis_'' | Some d \<Rightarrow> Inr d) of
        Inl e \<Rightarrow> Inl e
      | Inr target_dir \<Rightarrow>
          (case run_cmd env [''git'', ''clone'', ''--branch'', branch, repository_url, target_dir] (Some 300) of
             Inl e \<Rightarrow> Inl e
           | Inr result \<Rightarrow>
               if returncode result \<noteq> 0
               then Inr [(''status'', PStr ''error''),
                         (''message'', PStr (''Failed to clone repository: '' @ stderr result)),
                         (''local_path'', PStr [])]
               else
                 (case run_cmd env [''git'', ''-C'', target_dir, ''rev-parse'', ''HEAD''] None of
                    Inl e \<Rightarrow> Inl e
                  | Inr commit_result \<Rightarrow>
                      (let commit_hash = (if returncode commit_result = 0
                                          then strip (stdout commit_result) else [])
                       in Inr [(''status'', PStr ''success''),
                               (''message'', PStr (''Successfully cloned repository to '' @ target_dir)),
                               (''local_path'', PStr target_dir),
                               (''repository_url'', PStr repository_url),
                               (''branch'', PStr branch),
                               (''commit_hash'', PStr commit_hash)]))))"

text \<open>
  \<open>clone_repository\<close>: the \<open>try\<close> block under its two handlers,
  \<open>except subprocess.TimeoutExpired\<close> and \<open>except Exception\<close>.
\<close>

definition clone_repository :: "git_env \<Rightarrow> string \<Rightarrow> string \<Rightarrow> string option \<Rightarrow> py_exception + pydict" where
  "clone_repository env repository_url branch target_dir =
     (case clone_repository_try env repository_url branch target_dir of
        Inr d \<Rightarrow> Inr d
      | Inl TimeoutExpired \<Rightarrow>
          Inr [(''status'', PStr ''error''),
               (''message'', PStr ''Repository clone timed out''),
               (''local_path'', PStr [])]
      | Inl (PyException e) \<Rightarrow>
          Inr [(''status'', PStr ''error''),
               (''message'', PStr (''Error cloning repository: '' @ e)),
               (''local_path'', PStr [])]
      | Inl (BaseExc e) \<Rightarrow> Inl (BaseExc e))"

section \<open>JIRA tools (tools/jira\_tools.py)\<close>

text \<open>
  The regular expression \<open>/browse/([A-Z]+-\d+)\<close> of \<open>fetch_jira_ticket\<close>.
  \<open>match_browse s\<close> matches it at the start of \<open>s\<close> and returns group 1: after the
  literal \<open>/browse/\<close> the longest run of capital letters, which must not be empty, a
  hyphen, and the longest run of digits, which must not be empty (neither run can give a
  character back, since the character that has to follow is outside its class).
  \<open>re_search_browse\<close> is \<open>re.search\<close>: the match at the leftmost position that has one.
\<close>

definition is_upper :: "char \<Rightarrow> bool" where
  "is_upper c = (let n = (of_char c :: nat) in 65 \<le> n \<and> n \<le> 90)"

definition is_digit :: "char \<Rightarrow> bool" where
  "is_digit c = (let n = (of_char c :: nat) in 48 \<le> n \<and> n \<le> 57)"

definition match_browse :: "string \<Rightarrow> string option" where
  "match_browse s =
     (if startswith s ''/browse/''
      then (let rest = drop 8 s;
                project = takeWhile is_upper rest
            in case dropWhile is_upper rest of
                 [] \<Rightarrow> None
               | c # ds \<Rightarrow>
                   (let number = takeWhile is_digit ds
                    in if project \<noteq> [] \<and> c = CHR ''-'' \<and> number \<noteq> []
                       then Some (project @ c # number) else None))
      else None)"

fun re_search_browse :: "string \<Rightarrow> string option" where
  "re_search_browse [] = None"
| "re_search_browse (c # cs) =
     (case match_browse (c # cs) of Some g \<Rightarrow> Some g | None \<Rightarrow> re_search_browse cs)"

text \<open>
  \<open>urllib.parse.urlparse\<close> is a parameter of the model of \<open>fetch_jira_ticket\<close>: it
  returns the scheme and the network location of a URL, or raises. \<open>urlparse_py\<close>
  renders the part of the library function that splits off the scheme and the network
  location and rejects a network location with one square bracket and not the other
  (\<open>ValueError: Invalid IPv6 URL\<close>).
\<close>

type_synonym urlparse = "string \<Rightarrow> py_exception + string \<times> string"

definition is_alpha :: "char \<Rightarrow> bool" where
  "is_alpha c = (let n = (of_char c :: nat) in (65 \<le> n \<and> n \<le> 90) \<or> (97 \<le> n \<and> n \<le> 122))"

definition scheme_char :: "char \<Rightarrow> bool" where
  "scheme_char c = (is_alpha c \<or> is_digit c \<or> c \<in> set ''+-.'')"

definition urlparse_py :: urlparse where
  "urlparse_py url =
     (let head = takeWhile (\<lambda>c. c \<noteq> CHR '':'') url;
          (scheme, rest) =
            (if head \<noteq> [] \<and> length head < length url \<and> is_alpha (hd head) \<and> list_all scheme_char head
             then (lower head, drop (length head + 1) url)
             else ([], url))
      in if startswith rest ''//''
         then (let netloc = takeWhile (\<lambda>c. c \<notin> set ''/?#'') (drop 2 rest)
               in if (CHR ''['' \<in> set netloc) \<noteq> (CHR '']'' \<in> set netloc)
                  then Inl (PyException ''Invalid IPv6 URL'')
                  else Inr (scheme, netloc))
         else Inr (scheme, []))"

text \<open>The dictionary \<open>mock_ticket_data\<close> of \<open>fetch_jira_ticket\<close>.\<close>

definition mock_ticket_data :: "(string \<times> pydict) list" where
  "mock_ticket_data =
     [(''PROJ-123'',
       [(''title'', PStr ''Implement user authentication system''),
        (''description'', PStr ''As a user, I want to be able to log in to the system securely so that I can access my personal dashboard.''),
        (''status'', PStr ''In Progress''),
        (''priority'', PStr ''High''),
        (''assignee'', PStr ''john.doe@company.com''),
        (''reporter'', PStr ''product.manager@company.com''),
        (''acceptance_criteria'', PList
          [PStr ''User can log in with valid email and password'',
           PStr ''System displays error message for invalid credentials'',
           PStr ''User session expires after 30 minutes of inactivity'',
           PStr ''Password must meet complexity requirements'',
           PStr ''Account locks after 5 failed login attempts'']),
        (''labels'', PList
          [PStr ''authentication'',
           PStr ''security'',
           PStr ''user-management'']),
        (''components'', PList
          [PStr ''Frontend'',
           PStr ''Backend'',
           PStr ''Database''])]),
      (''STORY-456'',
       [(''title'', PStr ''Add shopping cart functionality''),
        (''description'', PStr ''Implement shopping cart where users can add, remove, and modify items before checkout.''),
        (''status'', PStr ''To Do''),
        (''priority'', PStr ''Medium''),
        (''assignee'', PStr ''jane.smith@company.com''),
        (''reporter'', PStr ''business.analyst@company.com''),
        (''acceptance_criteria'', PList
          [PStr ''Users can add items to cart from product pages'',
           PStr ''Users can view cart contents and total price'',
           PStr ''Users can modify quantities or remove items'',
           PStr ''Cart persists across browser sessions'',
           PStr ''Cart shows real-time inventory availability'']),
        (''labels'', PList
          [PStr ''e-commerce'',
           PStr ''shopping'',
           PStr ''frontend'']),
        (''components'', PList
          [PStr ''Frontend'',
           PStr ''API'',
           PStr ''Database''])])]"


text \<open>
  The keys that the returned ticket copies from an entry of \<open>mock_ticket_data\<close>, in the
  order of the source; reading a key that the entry does not have raises \<open>KeyError\<close>.
\<close>

definition ticket_fields :: "string list" where
  "ticket_fields =
     [''title'', ''description'', ''status'', ''priority'', ''assignee'', ''reporter'',
      ''acceptance_criteria'', ''labels'', ''components'']"

text \<open>
  The body of the \<open>try\<close> block of \<open>fetch_jira_ticket\<close>. The base URL computed from
  the parsed URL is not read again and is not kept; \<open>username\<close> and \<open>api_token\<close>
  are never read and are left out.
\<close>

definition fetch_jira_ticket_try :: "urlparse \<Rightarrow> string \<Rightarrow> string \<Rightarrow> py_exception + pydict" where
  "fetch_jira_ticket_try urlparse ticket_url_or_id jira_base_url =
     (case (if startswith ticket_url_or_id ''http''
            then (let ticket_id = (case re_search_browse ticket_url_or_id of
                                     Some g \<Rightarrow> g | None \<Rightarrow> [])
                  in if jira_base_url = []
                     then (case urlparse ticket_url_or_id of
                             Inl e \<Rightarrow> Inl e
                           | Inr parsed_url \<Rightarrow> Inr ticket_id)
                     else Inr ticket_id)
            else Inr ticket_url_or_id) of
        Inl e \<Rightarrow> Inl e
      | Inr ticket_id \<Rightarrow>
          if ticket_id = []
          then Inr [(''status'', PStr ''error''),
                    (''message'', PStr ''Invalid ticket URL or ID''),
                    (''ticket'', PNone)]
          else
            (case map_of mock_ticket_data ticket_id of
               Some ticket_data \<Rightarrow>
                 (case those (map (map_of ticket_data) ticket_fields) of
                    None \<Rightarrow> Inl (PyException ''KeyError'')
                  | Some vs \<Rightarrow>
                      Inr [(''status'', PStr ''success''),
                           (''message'', PStr (''Successfully fetched ticket '' @ ticket_id)),
                           (''ticket'', PDict ((''ticket_id'', PStr ticket_id) # zip ticket_fields vs))])
             | None \<Rightarrow>
                 Inr [(''status'', PStr ''success''),
                      (''message'', PStr (''Successfully fetched ticket '' @ ticket_id)),
                      (''ticket'', PDict
                         [(''ticket_id'', PStr ticket_id),
                          (''title'', PStr (''Generic ticket '' @ ticket_id)),
                          (''description'', PStr ''This is a mock ticket for demonstration purposes.''),
                          (''status'', PStr ''Open''),
                          (''priority'', PStr ''Medium''),
                          (''assignee'', PStr ''unassigned''),
                          (''reporter'', PStr ''system''),
                          (''acceptance_criteria'', PList
                             [PStr ''Implement the required functionality'',
                              PStr ''Add appropriate error handling'',
                              PStr ''Include unit tests'',
                              PStr ''Update documentation'']),
                          (''labels'', PList [PStr ''feature'', PStr ''development'']),
                          (''components'', PList [PStr ''Backend''])])]))"

text \<open>The text of an exception, as \<open>str(e)\<close> gives it.\<close>

fun exception_text :: "py_exception \<Rightarrow> string" where
  "exception_text TimeoutExpired = ''TimeoutExpired''"
| "exception_text (PyException e) = e"
| "exception_text (BaseExc e) = e"

text \<open>\<open>fetch_jira_ticket\<close>: the \<open>try\<close> block under \<open>except Exception\<close>.\<close>

definition fetch_jira_ticket :: "urlparse \<Rightarrow> string \<Rightarrow> string \<Rightarrow> py_exception + pydict" where
  "fetch_jira_ticket urlparse ticket_url_or_id jira_base_url =
     (case fetch_jira_ticket_try urlparse ticket_url_or_id jira_base_url of
        Inr d \<Rightarrow> Inr d
      | Inl (BaseExc e) \<Rightarrow> Inl (BaseExc e)
      | Inl e \<Rightarrow>
          Inr [(''status'', PStr ''error''),
               (''message'', PStr (''Error fetching JIRA ticket: '' @ exception_text e)),
               (''ticket'', PNone)])"

section \<open>PDF tools (tools/pdf\_tools.py)\<close>

text \<open>The dictionary \<open>mock_pdf_content\<close> of \<open>extract_pdf_content\<close>.\<close>

definition mock_pdf_content :: "(string \<times> pydict) list" where
  "mock_pdf_content =
     [(''user_manual.pdf'',
       [(''title'', PStr ''User Authentication System - Requirements Document''),
        (''total_pages'', PInt 15),
        (''content'', PStr (CHR 0x0A #
              ''                1. INTRODUCTION'' @ CHR 0x0A #
              ''                This document outlines the requirements for implementing a secure user authentication system.'' @ CHR 0x0A #
              ''                '' @ CHR 0x0A #
              ''                2. FUNCTIONAL REQUIREMENTS'' @ CHR 0x0A #
              ''                2.1 User Registration'' @ CHR 0x0A #
              ''                - Users must be able to create accounts with email and password'' @ CHR 0x0A #
              ''                - Email validation is required before account activation'' @ CHR 0x0A #
              ''                - Password must meet complexity requirements (8+ characters, mixed case, numbers, symbols)'' @ CHR 0x0A #
              ''                '' @ CHR 0x0A #
              ''                2.2 User Login'' @ CHR 0x0A #
              ''                - Users must authenticate with email and password'' @ CHR 0x0A #
              ''                - System must support '' @ CHR 0x22 # ''Remember Me'' @ CHR 0x22 # '' functionality'' @ CHR 0x0A #
              ''                - Failed login attempts must be tracked and limited'' @ CHR 0x0A #
              ''                '' @ CHR 0x0A #
              ''                2.3 Password Management'' @ CHR 0x0A #
              ''                - Users must be able to reset forgotten passwords'' @ CHR 0x0A #
              ''                - Password reset must use secure email verification'' @ CHR 0x0A #
              ''                - Users must be able to change passwords when logged in'' @ CHR 0x0A #
              ''                '' @ CHR 0x0A #
              ''                3. NON-FUNCTIONAL REQUIREMENTS'' @ CHR 0x0A #
              ''                3.1 Security'' @ CHR 0x0A #
              ''                - All passwords must be hashed using bcrypt or similar'' @ CHR 0x0A #
              ''                - Session tokens must expire after 30 minutes of inactivity'' @ CHR 0x0A #
              ''                - All authentication endpoints must use HTTPS'' @ CHR 0x0A #
              ''                '' @ CHR 0x0A #
              ''                3.2 Performance'' @ CHR 0x0A #
              ''                - Login response time must be under 2 seconds'' @ CHR 0x0A #
              ''                - System must support 1000+ concurrent users'' @ CHR 0x0A #
              ''                '' @ CHR 0x0A #
              ''                4. ACCEPTANCE CRITERIA'' @ CHR 0x0A #
              ''                - User can successfully register with valid information'' @ CHR 0x0A #
              ''                - User receives email confirmation after registration'' @ CHR 0x0A #
              ''                - User can log in with valid credentials'' @ CHR 0x0A #
              ''                - User cannot log in with invalid credentials'' @ CHR 0x0A #
              ''                - User account locks after 5 failed attempts'' @ CHR 0x0A #
              ''                - User can reset password using email link'' @ CHR 0x0A #
              ''                '')),
        (''sections'', PList
          [PDict
             [(''section_id'', PStr ''1''),
              (''title'', PStr ''Introduction''),
              (''content'', PStr ''This document outlines the requirements for implementing a secure user authentication system.''),
              (''page_number'', PInt 1),
              (''section_type'', PStr ''content'')],
           PDict
             [(''section_id'', PStr ''2''),
              (''title'', PStr ''Functional Requirements''),
              (''content'', PStr ''User Registration, User Login, Password Management requirements...''),
              (''page_number'', PInt 2),
              (''section_type'', PStr ''requirements'')],
           PDict
             [(''section_id'', PStr ''3''),
              (''title'', PStr ''Non-Functional Requirements''),
              (''content'', PStr ''Security and Performance requirements...''),
              (''page_number'', PInt 8),
              (''section_type'', PStr ''requirements'')],
           PDict
             [(''section_id'', PStr ''4''),
              (''title'', PStr ''Acceptance Criteria''),
              (''content'', PStr ''Detailed acceptance criteria for all features...''),
              (''page_number'', PInt 12),
              (''section_type'', PStr ''criteria'')]])]),
      (''api_spec.pdf'',
       [(''title'', PStr ''REST API Specification v2.1''),
        (''total_pages'', PInt 25),
        (''content'', PStr (CHR 0x0A #
              ''                API SPECIFICATION'' @ CHR 0x0A #
              ''                '' @ CHR 0x0A #
              ''                1. AUTHENTICATION ENDPOINTS'' @ CHR 0x0A #
              ''                POST /api/auth/login'' @ CHR 0x0A #
              ''                - Request: {'' @ CHR 0x22 # ''email'' @ CHR 0x22 # '': '' @ CHR 0x22 # ''string'' @ CHR 0x22 # '', '' @ CHR 0x22 # ''password'' @ CHR 0x22 # '': '' @ CHR 0x22 # ''string'' @ CHR 0x22 # ''}'' @ CHR 0x0A #
              ''                - Response: {'' @ CHR 0x22 # ''token'' @ CHR 0x22 # '': '' @ CHR 0x22 # ''string'' @ CHR 0x22 # '', '' @ CHR 0x22 # ''expires'' @ CHR 0x22 # '': '' @ CHR 0x22 # ''datetime'' @ CHR 0x22 # ''}'' @ CHR 0x0A #
              ''                '' @ CHR 0x0A #
              ''                POST /api/auth/register'' @ CHR 0x0A #
              ''                - Request: {'' @ CHR 0x22 # ''email'' @ CHR 0x22 # '': '' @ CHR 0x22 # ''string'' @ CHR 0x22 # '', '' @ CHR 0x22 # ''password'' @ CHR 0x22 # '': '' @ CHR 0x22 # ''string'' @ CHR 0x22 # '', '' @ CHR 0x22 # ''firstName'' @ CHR 0x22 # '': '' @ CHR 0x22 # ''string'' @ CHR 0x22 # '', '' @ CHR 0x22 # ''lastName'' @ CHR 0x22 # '': '' @ CHR 0x22 # ''string'' @ CHR 0x22 # ''}'' @ CHR 0x0A #
              ''                - Response: {'' @ CHR 0x22 # ''userId'' @ CHR 0x22 # '': '' @ CHR 0x22 # ''string'' @ CHR 0x22 # '', '' @ CHR 0x22 # ''message'' @ CHR 0x22 # '': '' @ CHR 0x22 # ''string'' @ CHR 0x22 # ''}'' @ CHR 0x0A #
              ''                '' @ CHR 0x0A #
              ''                2. USER MANAGEMENT ENDPOINTS'' @ CHR 0x0A #
              ''                GET /api/users/profile'' @ CHR 0x0A #
              ''                - Headers: Authorization: Bearer <token>'' @ CHR 0x0A #
              ''                - Response: {'' @ CHR 0x22 # ''userId'' @ CHR 0x22 # '': '' @ CHR 0x22 # ''string'' @ CHR 0x22 # '', '' @ CHR 0x22 # ''email'' @ CHR 0x22 # '': '' @ CHR 0x22 # ''string'' @ CHR 0x22 # '', '' @ CHR 0x22 # ''profile'' @ CHR 0x22 # '': {}}'' @ CHR 0x0A #
              ''                '' @ CHR 0x0A #
              ''                PUT /api/users/profile'' @ CHR 0x0A #
              ''                - Headers: Authorization: Bearer <token>'' @ CHR 0x0A #
              ''                - Request: {'' @ CHR 0x22 # ''firstName'' @ CHR 0x22 # '': '' @ CHR 0x22 # ''string'' @ CHR 0x22 # '', '' @ CHR 0x22 # ''lastName'' @ CHR 0x22 # '': '' @ CHR 0x22 # ''string'' @ CHR 0x22 # '', '' @ CHR 0x22 # ''phone'' @ CHR 0x22 # '': '' @ CHR 0x22 # ''string'' @ CHR 0x22 # ''}'' @ CHR 0x0A #
              ''                - Response: {'' @ CHR 0x22 # ''success'' @ CHR 0x22 # '': '' @ CHR 0x22 # ''boolean'' @ CHR 0x22 # '', '' @ CHR 0x22 # ''message'' @ CHR 0x22 # '': '' @ CHR 0x22 # ''string'' @ CHR 0x22 # ''}'' @ CHR 0x0A #
              ''                '' @ CHR 0x0A #
              ''                3. ERROR RESPONSES'' @ CHR 0x0A #
              ''                - 400 Bad Request: Invalid input parameters'' @ CHR 0x0A #
              ''                - 401 Unauthorized: Invalid or expired token'' @ CHR 0x0A #
              ''                - 403 Forbidden: Insufficient permissions'' @ CHR 0x0A #
              ''                - 404 Not Found: Resource not found'' @ CHR 0x0A #
              ''                - 500 Internal Server Error: Server error'' @ CHR 0x0A #
              ''                '')),
        (''sections'', PList
          [PDict
             [(''section_id'', PStr ''1''),
              (''title'', PStr ''Authentication Endpoints''),
              (''content'', PStr ''POST /api/auth/login, POST /api/auth/register''),
              (''page_number'', PInt 3),
              (''section_type'', PStr ''api_spec'')],
           PDict
             [(''section_id'', PStr ''2''),
              (''title'', PStr ''User Management Endpoints''),
              (''content'', PStr ''GET /api/users/profile, PUT /api/users/profile''),
              (''page_number'', PInt 8),
              (''section_type'', PStr ''api_spec'')]])])]"

text \<open>\<open>os.path.basename\<close>: what follows the last slash.\<close>

definition basename :: "string \<Rightarrow> string" where
  "basename p = rev (takeWhile (\<lambda>c. c \<noteq> CHR ''/'') (rev p))"

text \<open>
  The body of the \<open>try\<close> block of \<open>extract_pdf_content\<close>. \<open>path_exists\<close> is the
  file system as \<open>os.path.exists\<close> reports it. A key missing from a dictionary raises
  \<open>KeyError\<close>.
\<close>

definition extract_pdf_content_try :: "(string \<Rightarrow> bool) \<Rightarrow> string \<Rightarrow> py_exception + pydict" where
  "extract_pdf_content_try path_exists pdf_path_or_url =
     (if startswith pdf_path_or_url ''http://'' \<or> startswith pdf_path_or_url ''https://''
      then Inr [(''status'', PStr ''error''),
                (''message'', PStr ''PDF URL download not implemented in this demo''),
                (''content'', PStr [])]
      else if \<not> path_exists pdf_path_or_url
      then Inr [(''status'', PStr ''error''),
                (''message'', PStr (''PDF file not found: '' @ pdf_path_or_url)),
                (''content'', PStr [])]
      else
        (let filename = lower (basename pdf_path_or_url);
             content_data =
               (if str_contains filename ''user'' \<or> str_contains filename ''manual''
                   \<or> str_contains filename ''requirements''
                then map_of mock_pdf_content ''user_manual.pdf''
                else if str_contains filename ''api'' \<or> str_contains filename ''spec''
                then map_of mock_pdf_content ''api_spec.pdf''
                else Some
                  [(''title'', PStr (''Document: '' @ basename pdf_path_or_url)),
                   (''total_pages'', PInt 5),
                   (''content'', PStr ''This is a sample PDF document with generic content for demonstration purposes.''),
                   (''sections'', PList
                      [PDict
                         [(''section_id'', PStr ''1''),
                          (''title'', PStr ''Generic Section''),
                          (''content'', PStr ''Sample content from PDF document''),
                          (''page_number'', PInt 1),
                          (''section_type'', PStr ''content'')]])])
         in case content_data of
              None \<Rightarrow> Inl (PyException ''KeyError'')
            | Some cd \<Rightarrow>
                (case those (map (map_of cd) [''title'', ''total_pages'', ''content'', ''sections'']) of
                   Some [title, total_pages, content, sections] \<Rightarrow>
                     Inr [(''status'', PStr ''success''),
                          (''message'', PStr (''Successfully extracted content from '' @ pdf_path_or_url)),
                          (''document_title'', title),
                          (''total_pages'', total_pages),
                          (''full_content'', content),
                          (''sections'', sections),
                          (''file_path'', PStr pdf_path_or_url)]
                 | _ \<Rightarrow> Inl (PyException ''KeyError''))))"

text \<open>\<open>extract_pdf_content\<close>: the \<open>try\<close> block under \<open>except Exception\<close>.\<close>

definition extract_pdf_content :: "(string \<Rightarrow> bool) \<Rightarrow> string \<Rightarrow> py_exception + pydict" where
  "extract_pdf_content path_exists pdf_path_or_url =
     (case extract_pdf_content_try path_exists pdf_path_or_url of
        Inr d \<Rightarrow> Inr d
      | Inl (BaseExc e) \<Rightarrow> Inl (BaseExc e)
      | Inl e \<Rightarrow>
          Inr [(''status'', PStr ''error''),
               (''message'', PStr (''Error extracting PDF content: '' @ exception_text e)),
               (''content'', PStr [])])"

section \<open>Notions used in the statements\<close>

text \<open>The request types that \<open>_detect_request_type\<close> names in its \<open>return\<close> statements.\<close>

definition request_types :: "string list" where
  "request_types =
     [''git_analysis'', ''git_pull'', ''jira_test_generation'', ''jira_analysis'',
      ''pdf_processing'', ''script_generation'', ''test_generation'', ''code_analysis'',
      ''general_chat'']"

text \<open>
  The start of \<open>main\<close>: a new orchestrator, then \<open>create_session\<close> for the demo user,
  before any message is read.
\<close>

definition main_startup :: orchestrator where
  "main_startup = snd (create_session init_orchestrator ''demo_user'')"

text \<open>A runner that yields no event.\<close>

definition silent_runner :: runner where
  "silent_runner uid sid req = []"

text \<open>Requests (user id and message) served one after the other.\<close>

fun serve :: "runner \<Rightarrow> orchestrator \<Rightarrow> (string \<times> string) list \<Rightarrow> orchestrator" where
  "serve run_async self [] = self"
| "serve run_async self ((uid, message) # reqs) =
     serve run_async (snd (process_user_message run_async self uid message)) reqs"

text \<open>Reading a string-valued entry of a result dictionary.\<close>

definition str_entry :: "pydict \<Rightarrow> string \<Rightarrow> string option" where
  "str_entry d k = (case map_of d k of Some (PStr s) \<Rightarrow> Some s | _ \<Rightarrow> None)"

text \<open>
  The directory \<open>clone_repository\<close> clones into and the two command lines it runs.
\<close>

definition target_dir_of :: "git_env \<Rightarrow> string option \<Rightarrow> py_exception + string" where
  "target_dir_of env target_dir =
     (case target_dir of None \<Rightarrow> mkdtemp env ''git_analysis_'' | Some d \<Rightarrow> Inr d)"

definition clone_cmd :: "string \<Rightarrow> string \<Rightarrow> string \<Rightarrow> string list" where
  "clone_cmd branch repository_url dir = [''git'', ''clone'', ''--branch'', branch, repository_url, dir]"

definition commit_cmd :: "string \<Rightarrow> string list" where
  "commit_cmd dir = [''git'', ''-C'', dir, ''rev-parse'', ''HEAD'']"

text \<open>
  An environment in which every call returns what is given, for the examples:
  \<open>mkdtemp\<close> returns \<open>made\<close>, the clone returns \<open>cloned\<close> and every other command
  returns \<open>other\<close>.
\<close>

definition fixed_env :: "py_exception + string \<Rightarrow> py_exception + completed_process \<Rightarrow> py_exception + completed_process \<Rightarrow> git_env" where
  "fixed_env made cloned other =
     \<lparr>mkdtemp = (\<lambda>prefix. made),
      run_cmd = (\<lambda>cmd timeout. if take 2 cmd = [''git'', ''clone''] then cloned else other)\<rparr>"

text \<open>The ticket id that \<open>fetch_jira_ticket\<close> extracts from its argument.\<close>

definition extract_ticket_id :: "string \<Rightarrow> string" where
  "extract_ticket_id ticket_url_or_id =
     (if startswith ticket_url_or_id ''http''
      then (case re_search_browse ticket_url_or_id of Some g \<Rightarrow> g | None \<Rightarrow> [])
      else ticket_url_or_id)"

text \<open>
  A text holds a segment \<open>/browse/<PROJECT>-<number>\<close>: the literal, capital
  letters, a hyphen and digits, somewhere in it.
\<close>

definition has_browse_segment :: "string \<Rightarrow> bool" where
  "has_browse_segment t =
     (\<exists>pre project number suf.
        t = pre @ ''/browse/'' @ project @ CHR ''-'' # number @ suf
        \<and> project \<noteq> [] \<and> list_all is_upper project
        \<and> number \<noteq> [] \<and> list_all is_digit number)"

text \<open>The test of \<open>extract_pdf_content\<close> for a URL.\<close>

definition is_url :: "string \<Rightarrow> bool" where
  "is_url p = (startswith p ''http://'' \<or> startswith p ''https://'')"

text \<open>Stages for the examples: one that succeeds and writes a key, one that fails.\<close>

definition succeeding_stage :: "string \<Rightarrow> string \<Rightarrow> stage" where
  "succeeding_stage n key =
     \<lparr>name = n,
      run = (\<lambda>st. \<lparr>status = Success, deltas = [(key, PBool True)], diagnostic = None\<rparr>)\<rparr>"

definition failing_stage :: "string \<Rightarrow> stage" where
  "failing_stage n =
     \<lparr>name = n,
      run = (\<lambda>st. \<lparr>status = Failure, deltas = [], diagnostic = Some ''failed''\<rparr>)\<rparr>"

fun agent_name :: "agent \<Rightarrow> string" where
  "agent_name (LlmAgent n) = n"
| "agent_name (ImportedAgent n) = n"
| "agent_name (SequentialAgent n subs) = n"
| "agent_name (LoopAgent n subs k) = n"

definition example_impl :: "agent \<Rightarrow> stage" where
  "example_impl a = succeeding_stage (agent_name a) (agent_name a)"


definition example_impl_failing :: "agent \<Rightarrow> agent \<Rightarrow> stage" where
  "example_impl_failing bad a = (if a = bad then failing_stage (agent_name a) else example_impl a)"



definition refinement_loop_example :: "(shared_state \<Rightarrow> bool) \<Rightarrow> loop_descriptor" where
  "refinement_loop_example pred =
     \<lparr>body = map example_impl [test_runner_agent, debugger_and_refiner_agent],
      max_iterations = 3, exit_predicate = pred\<rparr>"




text \<open>A file system that holds one path, for the examples.\<close>

definition only_file :: "string \<Rightarrow> string \<Rightarrow> bool" where
  "only_file f q = (q = f)"

section \<open>Properties of the string functions\<close>

lemma startswith_append: "startswith (p @ s) p"
  by (induction p) auto

lemma startswith_lower: "startswith s k \<Longrightarrow> startswith (lower s) (lower k)"
  by (induction s k rule: startswith.induct) (auto simp: lower_def)

lemma str_contains_lower: "str_contains s k \<Longrightarrow> str_contains (lower s) (lower k)"
proof (induction s)
  case Nil
  then show ?case by (simp add: lower_def)
next
  case (Cons c cs)
  then show ?case
    using startswith_lower [of "c # cs" k] by (auto simp: lower_def)
qed

section \<open>The classifier\<close>

lemma detect_in_request_types: "detect_request_type self message \<in> set request_types"
  by (simp add: detect_request_type_def request_types_def Let_def)

lemma distinct_request_types: "distinct request_types"
  by (simp add: request_types_def)

lemma detect_default:
  assumes "\<not> git_family (lower message)" and "\<not> jira_family (lower message)"
    and "\<not> pdf_family (lower message)" and "\<not> script_family (lower message)"
    and "\<not> test_family (lower message)" and "\<not> code_family (lower message)"
  shows "detect_request_type self message = ''general_chat''"
  using assms by (simp add: detect_request_type_def Let_def)

lemma detect_git_example:
  "detect_request_type self
     ''Analyze git repository https://example.com/repo.git changes since last commit''
   = ''git_analysis''"
  by code_simp

lemma detect_jira_example:
  "detect_request_type self ''Generate tests from JIRA ticket PROJ-123'' = ''jira_test_generation''"
  by code_simp

lemma detect_hello: "detect_request_type self ''hello'' = ''general_chat''"
  by code_simp

text \<open>
  A request that names git in any spelling of upper and lower case reaches the git
  branch.
\<close>

lemma mention_git: "str_contains message ''git'' \<Longrightarrow> git_family (lower message)"
proof -
  assume "str_contains message ''git''"
  then have "str_contains (lower message) (lower ''git'')"
    by (rule str_contains_lower)
  moreover have "lower ''git'' = ''git''"
    by code_simp
  ultimately show ?thesis
    by (simp add: any_keyword_def)
qed

text \<open>
  C3, as the specification states it, fails: for the request text \<open>hello\<close>, which
  matches no keyword, the classifier does not return \<open>general\<close>.
\<close>

theorem C3_default_is_not_general:
  "detect_request_type init_orchestrator ''hello'' \<noteq> ''general''"
  by code_simp

text \<open>
  C3 (amended): the classifier is a total function that maps every request text to one of
  the nine request types; a text in which no keyword of any family occurs gets the
  default, which is \<open>general_chat\<close>. The git scenario gives \<open>git_analysis\<close>, the
  JIRA scenario gives \<open>jira_test_generation\<close>, and \<open>hello\<close> gives
  \<open>general_chat\<close>.
\<close>

theorem C3_classifier_total_default_general_chat:
  "detect_request_type self message \<in> set request_types
   \<and> (\<not> git_family (lower message) \<and> \<not> jira_family (lower message)
        \<and> \<not> pdf_family (lower message) \<and> \<not> script_family (lower message)
        \<and> \<not> test_family (lower message) \<and> \<not> code_family (lower message)
      \<longrightarrow> detect_request_type self message = ''general_chat'')
   \<and> detect_request_type self
         ''Analyze git repository https://example.com/repo.git changes since last commit''
       = ''git_analysis''
   \<and> detect_request_type self ''Generate tests from JIRA ticket PROJ-123''
       = ''jira_test_generation''
   \<and> detect_request_type self ''hello'' = ''general_chat''"
  using detect_in_request_types detect_default detect_git_example detect_jira_example detect_hello
  by blast

text \<open>Witness for C3 (amended): the text \<open>hello\<close> matches no keyword.\<close>

theorem C3_classifier_total_default_general_chat_witness:
  "\<not> git_family (lower ''hello'') \<and> \<not> jira_family (lower ''hello'')
   \<and> \<not> pdf_family (lower ''hello'') \<and> \<not> script_family (lower ''hello'')
   \<and> \<not> test_family (lower ''hello'') \<and> \<not> code_family (lower ''hello'')
   \<and> detect_request_type init_orchestrator ''hello'' = ''general_chat''
   \<and> detect_request_type init_orchestrator ''hello'' \<in> set request_types"
proof -
  have h: "\<not> git_family (lower ''hello'') \<and> \<not> jira_family (lower ''hello'')
   \<and> \<not> pdf_family (lower ''hello'') \<and> \<not> script_family (lower ''hello'')
   \<and> \<not> test_family (lower ''hello'') \<and> \<not> code_family (lower ''hello'')"
    by code_simp
  from C3_classifier_total_default_general_chat [of init_orchestrator "''hello''"] h
  show ?thesis by blast
qed

text \<open>
  C5: classification follows a fixed precedence. A request that matches a keyword of the
  git, JIRA, PDF or script family gets a request type of the first of these families that
  matches, in this order, and so never the generic test type or a later one; a request
  that matches none of them and a keyword of the test family gets \<open>test_generation\<close>,
  before the code-analysis type and the default. In particular a request that mentions
  both \<open>git\<close> and \<open>test\<close> is classified as \<open>git_analysis\<close> or \<open>git_pull\<close>.
\<close>

theorem C5_precedence:
  "(git_family (lower message)
      \<longrightarrow> detect_request_type self message \<in> {''git_analysis'', ''git_pull''})
   \<and> (\<not> git_family (lower message) \<and> jira_family (lower message)
      \<longrightarrow> detect_request_type self message \<in> {''jira_test_generation'', ''jira_analysis''})
   \<and> (\<not> git_family (lower message) \<and> \<not> jira_family (lower message)
        \<and> pdf_family (lower message)
      \<longrightarrow> detect_request_type self message = ''pdf_processing'')
   \<and> (\<not> git_family (lower message) \<and> \<not> jira_family (lower message)
        \<and> \<not> pdf_family (lower message) \<and> script_family (lower message)
      \<longrightarrow> detect_request_type self message = ''script_generation'')
   \<and> (git_family (lower message) \<or> jira_family (lower message)
        \<or> pdf_family (lower message) \<or> script_family (lower message)
      \<longrightarrow> detect_request_type self message
            \<notin> {''test_generation'', ''code_analysis'', ''general_chat''})
   \<and> (\<not> git_family (lower message) \<and> \<not> jira_family (lower message)
        \<and> \<not> pdf_family (lower message) \<and> \<not> script_family (lower message)
        \<and> test_family (lower message)
      \<longrightarrow> detect_request_type self message = ''test_generation'')
   \<and> (str_contains (lower message) ''git'' \<and> str_contains (lower message) ''test''
      \<longrightarrow> detect_request_type self message \<in> {''git_analysis'', ''git_pull''})"
  by (simp add: detect_request_type_def Let_def any_keyword_def)

text \<open>
  Witness for C5: one request for each case of the precedence; the first mentions both
  git and test.
\<close>

theorem C5_precedence_witness:
  "str_contains (lower ''Run the Git test suite'') ''git''
   \<and> str_contains (lower ''Run the Git test suite'') ''test''
   \<and> git_family (lower ''Run the Git test suite'')
   \<and> detect_request_type init_orchestrator ''Run the Git test suite''
       \<in> {''git_analysis'', ''git_pull''}
   \<and> detect_request_type init_orchestrator ''Run the Git test suite''
       \<notin> {''test_generation'', ''code_analysis'', ''general_chat''}
   \<and> \<not> git_family (lower ''Open ticket'') \<and> jira_family (lower ''Open ticket'')
   \<and> detect_request_type init_orchestrator ''Open ticket''
       \<in> {''jira_test_generation'', ''jira_analysis''}
   \<and> \<not> git_family (lower ''Read the PDF'') \<and> \<not> jira_family (lower ''Read the PDF'')
   \<and> pdf_family (lower ''Read the PDF'')
   \<and> detect_request_type init_orchestrator ''Read the PDF'' = ''pdf_processing''
   \<and> \<not> git_family (lower ''Generate tests'') \<and> \<not> jira_family (lower ''Generate tests'')
   \<and> \<not> pdf_family (lower ''Generate tests'') \<and> script_family (lower ''Generate tests'')
   \<and> detect_request_type init_orchestrator ''Generate tests'' = ''script_generation''
   \<and> \<not> git_family (lower ''Review my pytest code'')
   \<and> \<not> jira_family (lower ''Review my pytest code'')
   \<and> \<not> pdf_family (lower ''Review my pytest code'')
   \<and> \<not> script_family (lower ''Review my pytest code'')
   \<and> test_family (lower ''Review my pytest code'')
   \<and> detect_request_type init_orchestrator ''Review my pytest code'' = ''test_generation''"
proof -
  have g: "str_contains (lower ''Run the Git test suite'') ''git''
      \<and> str_contains (lower ''Run the Git test suite'') ''test''
      \<and> git_family (lower ''Run the Git test suite'')"
    by code_simp
  have j: "\<not> git_family (lower ''Open ticket'') \<and> jira_family (lower ''Open ticket'')"
    by code_simp
  have p: "\<not> git_family (lower ''Read the PDF'') \<and> \<not> jira_family (lower ''Read the PDF'')
      \<and> pdf_family (lower ''Read the PDF'')"
    by code_simp
  have s: "\<not> git_family (lower ''Generate tests'') \<and> \<not> jira_family (lower ''Generate tests'')
      \<and> \<not> pdf_family (lower ''Generate tests'') \<and> script_family (lower ''Generate tests'')"
    by code_simp
  have t: "\<not> git_family (lower ''Review my pytest code'')
      \<and> \<not> jira_family (lower ''Review my pytest code'')
      \<and> \<not> pdf_family (lower ''Review my pytest code'')
      \<and> \<not> script_family (lower ''Review my pytest code'')
      \<and> test_family (lower ''Review my pytest code'')"
    by code_simp
  from g C5_precedence [of "''Run the Git test suite''" init_orchestrator]
  have 1: "detect_request_type init_orchestrator ''Run the Git test suite''
             \<in> {''git_analysis'', ''git_pull''}
           \<and> detect_request_type init_orchestrator ''Run the Git test suite''
             \<notin> {''test_generation'', ''code_analysis'', ''general_chat''}"
    by blast
  from j C5_precedence [of "''Open ticket''" init_orchestrator]
  have 2: "detect_request_type init_orchestrator ''Open ticket''
             \<in> {''jira_test_generation'', ''jira_analysis''}"
    by blast
  from p C5_precedence [of "''Read the PDF''" init_orchestrator]
  have 3: "detect_request_type init_orchestrator ''Read the PDF'' = ''pdf_processing''"
    by blast
  from s C5_precedence [of "''Generate tests''" init_orchestrator]
  have 4: "detect_request_type init_orchestrator ''Generate tests'' = ''script_generation''"
    by blast
  from t C5_precedence [of "''Review my pytest code''" init_orchestrator]
  have 5: "detect_request_type init_orchestrator ''Review my pytest code'' = ''test_generation''"
    by blast
  from g j p s t 1 2 3 4 5 show ?thesis
    by blast
qed

text \<open>
  C6: the classifier is deterministic. Its result is a function of the request text
  alone: it reads neither the orchestrator nor any session state, so two runs on the same
  text return the same name whatever the state, and in particular under identical state.
\<close>

theorem C6_classifier_deterministic:
  "detect_request_type self1 message = detect_request_type self2 message"
  by (simp add: detect_request_type_def)

section \<open>The workflow registry\<close>

lemma workflow_map_keys:
  "fst ` set workflow_map =
     {''git_workflow'', ''jira_workflow'', ''pdf_workflow'', ''script_workflow'',
      ''test_generation_workflow''}"
  by (simp add: workflow_map_def)

lemma request_types_not_registered: "set request_types \<inter> fst ` set workflow_map = {}"
  by (simp add: workflow_map_keys) (simp add: request_types_def)

lemma map_of_workflow_map_None:
  "selected \<notin> fst ` set workflow_map \<Longrightarrow> map_of workflow_map selected = None"
  by (simp add: map_of_eq_None_iff)

text \<open>
  C4, as the specification states it, fails: the name that the classifier returns for
  \<open>hello\<close> has no entry in \<open>workflow_map\<close>, and \<open>execute_selected_workflow\<close> on
  that name returns \<open>None\<close>; it does not abort with a diagnostic.
\<close>

theorem C4_classifier_output_not_registered:
  "map_of workflow_map (detect_request_type init_orchestrator ''hello'') = None
   \<and> execute_selected_workflow
         [(''selected_workflow'', PStr (detect_request_type init_orchestrator ''hello''))]
       = Inr None"
  by code_simp

text \<open>
  C4 (amended): no name that the classifier returns is a key of \<open>workflow_map\<close>. The
  registry is read with the \<open>selected_workflow\<close> entry of the state:
  \<open>execute_selected_workflow\<close> returns the registered workflow when that name is a key,
  and \<open>None\<close>, without raising, when the name is not a key or the entry is absent.
\<close>

theorem C4_registry_lookup:
  "detect_request_type self message \<notin> fst ` set workflow_map
   \<and> (map_of state ''selected_workflow'' = Some (PStr selected)
        \<longrightarrow> execute_selected_workflow state = Inr (map_of workflow_map selected))
   \<and> (map_of state ''selected_workflow'' = Some (PStr selected)
        \<and> selected \<notin> fst ` set workflow_map
        \<longrightarrow> execute_selected_workflow state = Inr None)
   \<and> (map_of state ''selected_workflow'' = None
        \<longrightarrow> execute_selected_workflow state = Inr None)"
proof -
  have "detect_request_type self message \<notin> fst ` set workflow_map"
    using detect_in_request_types [of self message] request_types_not_registered by blast
  moreover have "map_of workflow_map [] = None"
    by (simp add: workflow_map_def)
  ultimately show ?thesis
    by (simp add: execute_selected_workflow_def map_of_workflow_map_None)
qed

text \<open>
  Witness for C4 (amended): a state that selects \<open>general_chat\<close>, a state that selects
  \<open>git_workflow\<close>, and the empty state.
\<close>

theorem C4_registry_lookup_witness:
  "map_of [(''selected_workflow'', PStr ''general_chat'')] ''selected_workflow''
     = Some (PStr ''general_chat'')
   \<and> ''general_chat'' \<notin> fst ` set workflow_map
   \<and> execute_selected_workflow [(''selected_workflow'', PStr ''general_chat'')] = Inr None
   \<and> map_of [(''selected_workflow'', PStr ''git_workflow'')] ''selected_workflow''
     = Some (PStr ''git_workflow'')
   \<and> execute_selected_workflow [(''selected_workflow'', PStr ''git_workflow'')]
     = Inr (Some git_workflow)
   \<and> map_of ([] :: pydict) ''selected_workflow'' = None
   \<and> execute_selected_workflow [] = Inr None"
proof -
  have h: "map_of [(''selected_workflow'', PStr ''general_chat'')] ''selected_workflow''
             = Some (PStr ''general_chat'')"
    by simp
  have k: "''general_chat'' \<notin> fst ` set workflow_map"
    by (simp add: workflow_map_def)
  have g: "map_of [(''selected_workflow'', PStr ''git_workflow'')] ''selected_workflow''
             = Some (PStr ''git_workflow'')"
    by simp
  have m: "map_of workflow_map ''git_workflow'' = Some git_workflow"
    by (simp add: workflow_map_def)
  have e: "map_of ([] :: pydict) ''selected_workflow'' = None"
    by simp
  from C4_registry_lookup [of init_orchestrator "[]"
         "[(''selected_workflow'', PStr ''general_chat'')]" "''general_chat''"] h k
  have 1: "execute_selected_workflow [(''selected_workflow'', PStr ''general_chat'')] = Inr None"
    by blast
  from C4_registry_lookup [of init_orchestrator "[]"
         "[(''selected_workflow'', PStr ''git_workflow'')]" "''git_workflow''"] g
  have "execute_selected_workflow [(''selected_workflow'', PStr ''git_workflow'')]
          = Inr (map_of workflow_map ''git_workflow'')"
    by blast
  with m have 2: "execute_selected_workflow [(''selected_workflow'', PStr ''git_workflow'')]
          = Inr (Some git_workflow)"
    by simp
  from C4_registry_lookup [of init_orchestrator "[]" "[]" "[]"] e
  have 3: "execute_selected_workflow [] = Inr None"
    by blast
  from h k g e 1 2 3 show ?thesis
    by blast
qed

section \<open>Sessions\<close>

lemma create_session_active:
  "active_sessions (snd (create_session self uid))
   = (active_sessions self)(uid \<mapsto>
        \<lparr>session_id = length (created (service self)),
         app_name = ''enhanced_agent_engine'', user_id = uid\<rparr>)"
  by (simp add: create_session_def service_create_session_def Let_def)

lemma create_session_created:
  "created (service (snd (create_session self uid)))
   = created (service self) @
       [\<lparr>session_id = length (created (service self)),
         app_name = ''enhanced_agent_engine'', user_id = uid\<rparr>]"
  by (simp add: create_session_def service_create_session_def Let_def)

lemma process_known_user:
  "uid \<in> dom (active_sessions self) \<Longrightarrow> snd (process_user_message run_async self uid message) = self"
  by (auto simp: process_user_message_def Let_def)

lemma process_new_user:
  "uid \<notin> dom (active_sessions self)
   \<Longrightarrow> snd (process_user_message run_async self uid message) = snd (create_session self uid)"
  by (simp add: process_user_message_def Let_def create_session_active split: option.splits)

lemma process_keeps_sessions:
  assumes "active_sessions self u = Some s"
  shows "active_sessions (snd (process_user_message run_async self uid message)) u = Some s"
proof (cases "uid \<in> dom (active_sessions self)")
  case True
  then show ?thesis using assms by (simp add: process_known_user)
next
  case False
  with assms have "u \<noteq> uid" by auto
  with False assms show ?thesis
    by (simp add: process_new_user create_session_active)
qed

lemma serve_keeps_sessions:
  "active_sessions self u = Some s \<Longrightarrow> active_sessions (serve run_async self reqs) u = Some s"
proof (induction reqs arbitrary: self)
  case Nil
  then show ?case by simp
next
  case (Cons req reqs)
  obtain uid message where req: "req = (uid, message)" by (cases req)
  from Cons.prems have "active_sessions (snd (process_user_message run_async self uid message)) u = Some s"
    by (rule process_keeps_sessions)
  then show ?case using Cons.IH req by simp
qed

lemma process_session_present:
  "uid \<in> dom (active_sessions (snd (process_user_message run_async self uid message)))"
proof (cases "uid \<in> dom (active_sessions self)")
  case True
  then show ?thesis by (simp add: process_known_user)
next
  case False
  then show ?thesis by (simp add: process_new_user create_session_active)
qed

lemma main_startup_session:
  "active_sessions main_startup ''demo_user''
   = Some \<lparr>session_id = 0, app_name = ''enhanced_agent_engine'', user_id = ''demo_user''\<rparr>"
  by (simp add: main_startup_def create_session_active init_orchestrator_def)

lemma main_startup_created: "length (created (service main_startup)) = 1"
  by (simp add: main_startup_def create_session_created init_orchestrator_def)

text \<open>
  C8, as the specification states it, fails. In \<open>main\<close> the session of the demo user
  is created at startup, before any request; the first request of that user then creates
  nothing and leaves the orchestrator as it is. A further \<open>create_session\<close> for the
  same user replaces the session.
\<close>

theorem C8_session_created_before_first_request:
  "active_sessions main_startup ''demo_user'' \<noteq> None
   \<and> snd (process_user_message silent_runner main_startup ''demo_user'' ''hello'') = main_startup
   \<and> active_sessions (snd (create_session main_startup ''demo_user'')) ''demo_user''
       \<noteq> active_sessions main_startup ''demo_user''"
proof -
  have a: "active_sessions main_startup ''demo_user'' \<noteq> None"
    by (simp add: main_startup_session)
  then have "''demo_user'' \<in> dom (active_sessions main_startup)"
    by auto
  then have b: "snd (process_user_message silent_runner main_startup ''demo_user'' ''hello'') = main_startup"
    by (rule process_known_user)
  have c: "active_sessions (snd (create_session main_startup ''demo_user'')) ''demo_user''
       \<noteq> active_sessions main_startup ''demo_user''"
    by (simp add: create_session_active main_startup_session main_startup_created)
  from a b c show ?thesis by blast
qed

text \<open>
  C8 (amended): \<open>process_user_message\<close> creates a session for a user id exactly when
  that id has no entry in \<open>active_sessions\<close>; a request of a user id that has an
  entry leaves the orchestrator unchanged; no sequence of requests removes or replaces a
  session, so the session a user id has after its first request is the one it has after
  any later requests; \<open>create_session\<close> called directly binds the user id to a new
  session, whatever was bound before.
\<close>

theorem C8_session_lifecycle:
  "(uid \<notin> dom (active_sessions self) \<longrightarrow>
      active_sessions (snd (process_user_message run_async self uid message)) uid
        = Some \<lparr>session_id = length (created (service self)),
                app_name = ''enhanced_agent_engine'', user_id = uid\<rparr>
      \<and> length (created (service (snd (process_user_message run_async self uid message))))
        = Suc (length (created (service self))))
   \<and> (uid \<in> dom (active_sessions self) \<longrightarrow>
      snd (process_user_message run_async self uid message) = self)
   \<and> (active_sessions self u = Some s \<longrightarrow>
      active_sessions (serve run_async self reqs) u = Some s)
   \<and> active_sessions
        (serve run_async (snd (process_user_message run_async self uid message)) reqs) uid
      = active_sessions (snd (process_user_message run_async self uid message)) uid
   \<and> active_sessions (snd (create_session self uid)) uid
      = Some \<lparr>session_id = length (created (service self)),
              app_name = ''enhanced_agent_engine'', user_id = uid\<rparr>"
proof -
  let ?self' = "snd (process_user_message run_async self uid message)"
  have "uid \<in> dom (active_sessions ?self')"
    by (rule process_session_present)
  then obtain s' where "active_sessions ?self' uid = Some s'"
    by auto
  then have "active_sessions (serve run_async ?self' reqs) uid = active_sessions ?self' uid"
    by (simp add: serve_keeps_sessions)
  then show ?thesis
    by (simp add: process_new_user process_known_user create_session_active
        create_session_created serve_keeps_sessions)
qed

text \<open>
  Witness for C8 (amended): a first request of a new user on a new orchestrator, and
  requests after the startup of \<open>main\<close>.
\<close>

theorem C8_session_lifecycle_witness:
  "''ann'' \<notin> dom (active_sessions init_orchestrator)
   \<and> active_sessions (snd (process_user_message silent_runner init_orchestrator ''ann'' ''hello'')) ''ann''
       = Some \<lparr>session_id = 0, app_name = ''enhanced_agent_engine'', user_id = ''ann''\<rparr>
   \<and> ''demo_user'' \<in> dom (active_sessions main_startup)
   \<and> snd (process_user_message silent_runner main_startup ''demo_user'' ''hello'') = main_startup
   \<and> active_sessions (serve silent_runner main_startup [(''ann'', ''hello''), (''demo_user'', ''hi'')]) ''demo_user''
       = Some \<lparr>session_id = 0, app_name = ''enhanced_agent_engine'', user_id = ''demo_user''\<rparr>"
proof -
  have a: "''ann'' \<notin> dom (active_sessions init_orchestrator)"
    by (simp add: init_orchestrator_def)
  have z: "length (created (service init_orchestrator)) = 0"
    by (simp add: init_orchestrator_def)
  have d: "''demo_user'' \<in> dom (active_sessions main_startup)"
    by (simp add: main_startup_session dom_def)
  note m = main_startup_session
  from C8_session_lifecycle [of "''ann''" init_orchestrator silent_runner "''hello''" "''demo_user''"
        "\<lparr>session_id = 0, app_name = ''enhanced_agent_engine'', user_id = ''demo_user''\<rparr>" "[]"] a z
  have 1: "active_sessions (snd (process_user_message silent_runner init_orchestrator ''ann'' ''hello'')) ''ann''
       = Some \<lparr>session_id = 0, app_name = ''enhanced_agent_engine'', user_id = ''ann''\<rparr>"
    by simp
  from C8_session_lifecycle [of "''demo_user''" main_startup silent_runner "''hello''" "''demo_user''"
        "\<lparr>session_id = 0, app_name = ''enhanced_agent_engine'', user_id = ''demo_user''\<rparr>"
        "[(''ann'', ''hello''), (''demo_user'', ''hi'')]"] d m
  have 2: "snd (process_user_message silent_runner main_startup ''demo_user'' ''hello'') = main_startup"
    and 3: "active_sessions (serve silent_runner main_startup [(''ann'', ''hello''), (''demo_user'', ''hi'')]) ''demo_user''
       = Some \<lparr>session_id = 0, app_name = ''enhanced_agent_engine'', user_id = ''demo_user''\<rparr>"
    by blast+
  from a d 1 2 3 show ?thesis by blast
qed

section \<open>Sequential pipelines\<close>

lemma apply_deltas_Nil: "apply_deltas st [] = st"
  by (simp add: apply_deltas_def)

lemma apply_deltas_Cons: "apply_deltas st ((k, v) # ds) = apply_deltas (st(k \<mapsto> v)) ds"
  by (simp add: apply_deltas_def)

lemma dom_apply_deltas: "dom (apply_deltas st ds) = dom st \<union> fst ` set ds"
proof (induction ds arbitrary: st)
  case Nil
  then show ?case by (simp add: apply_deltas_Nil)
next
  case (Cons d ds)
  obtain k v where "d = (k, v)" by (cases d)
  with Cons show ?case by (auto simp: apply_deltas_Cons)
qed

lemma apply_deltas_other: "k \<notin> fst ` set ds \<Longrightarrow> apply_deltas st ds k = st k"
proof (induction ds arbitrary: st)
  case Nil
  then show ?case by (simp add: apply_deltas_Nil)
next
  case (Cons d ds)
  obtain k' v where "d = (k', v)" by (cases d)
  with Cons show ?case by (auto simp: apply_deltas_Cons)
qed

lemma run_sequential_length_le: "length (results (run_sequential ss st)) \<le> length ss"
  by (induction ss arbitrary: st) (auto simp: Let_def)


lemma run_sequential_status: "final_status (run_sequential ss st) \<in> {Completed, Failed}"
  by (induction ss arbitrary: st) (auto simp: Let_def)

text \<open>
  A sequential run that ends as failed stopped at its first failing stage: the stages up
  to that one have a result, the last result is the failure, and what stands after the
  failing stage has no influence on the run.
\<close>

lemma run_sequential_failed:
  "final_status (run_sequential ss st) = Failed \<Longrightarrow>
   \<exists>k < length ss.
      map fst (results (run_sequential ss st)) = map name (take (Suc k) ss)
      \<and> status (snd (last (results (run_sequential ss st)))) = Failure
      \<and> (\<forall>x \<in> set (butlast (results (run_sequential ss st))). status (snd x) \<noteq> Failure)
      \<and> (\<forall>more. run_sequential (take (Suc k) ss @ more) st = run_sequential ss st)"
proof (induction ss arbitrary: st)
  case Nil
  then show ?case by simp
next
  case (Cons s ss)
  let ?r = "run s st"
  let ?st' = "apply_deltas st (deltas ?r)"
  show ?case
  proof (cases "status ?r = Failure")
    case True
    then have "run_sequential (s # ss) st = \<lparr>results = [(name s, ?r)], final_status = Failed, terminal_state = ?st'\<rparr>"
      by (simp add: Let_def)
    moreover from True have "\<forall>more. run_sequential (take (Suc 0) (s # ss) @ more) st = run_sequential (s # ss) st"
      by (simp add: Let_def)
    ultimately show ?thesis using True
      by (intro exI [of _ 0]) simp
  next
    case False
    then have eq: "run_sequential (s # ss) st = (run_sequential ss ?st')\<lparr>results := (name s, ?r) # results (run_sequential ss ?st')\<rparr>"
      by (simp add: Let_def)
    with Cons.prems have "final_status (run_sequential ss ?st') = Failed"
      by simp
    from Cons.IH [OF this] obtain k where k: "k < length ss"
      "map fst (results (run_sequential ss ?st')) = map name (take (Suc k) ss)"
      "status (snd (last (results (run_sequential ss ?st')))) = Failure"
      "\<forall>x \<in> set (butlast (results (run_sequential ss ?st'))). status (snd x) \<noteq> Failure"
      "\<forall>more. run_sequential (take (Suc k) ss @ more) ?st' = run_sequential ss ?st'"
      by blast
    from k(1,2) have ne: "results (run_sequential ss ?st') \<noteq> []"
      by (cases ss) auto
    have "\<forall>more. run_sequential (take (Suc (Suc k)) (s # ss) @ more) st = run_sequential (s # ss) st"
      using False k(5) by (simp add: Let_def)
    with k ne False eq show ?thesis
      by (intro exI [of _ "Suc k"]) (auto simp: Let_def)
  qed
qed

text \<open>
  C1: a sequential pipeline \<open>[A, B, C]\<close> in which \<open>A\<close> succeeds and \<open>B\<close> fails
  stops at \<open>B\<close>. The result holds exactly two execution results, that of \<open>A\<close>
  and that of \<open>B\<close>; the status is failed; \<open>C\<close> is never executed (the run is the
  same whatever stands in its place); nothing is rolled back: every key of the initial
  state and every key written by \<open>A\<close> is in the terminal state, with the value it
  had after \<open>A\<close> unless \<open>B\<close> wrote it.
\<close>

theorem C1_short_circuit:
  assumes "status (run A st) = Success"
    and "st1 = apply_deltas st (deltas (run A st))"
    and "status (run B st1) = Failure"
  shows "results (run_sequential [A, B, C] st) = [(name A, run A st), (name B, run B st1)]
    \<and> length (results (run_sequential [A, B, C] st)) = 2
    \<and> final_status (run_sequential [A, B, C] st) = Failed
    \<and> terminal_state (run_sequential [A, B, C] st) = apply_deltas st1 (deltas (run B st1))
    \<and> dom st \<union> fst ` set (deltas (run A st)) \<subseteq> dom (terminal_state (run_sequential [A, B, C] st))
    \<and> (\<forall>k. k \<notin> fst ` set (deltas (run B st1))
          \<longrightarrow> terminal_state (run_sequential [A, B, C] st) k = st1 k)
    \<and> (\<forall>C'. run_sequential [A, B, C'] st = run_sequential [A, B, C] st)"
  using assms by (auto simp: Let_def dom_apply_deltas apply_deltas_other)


lemma git_workflow_stages:
  "sequential_stages_of (example_impl_failing code_analyzer_agent) git_workflow
   = Some [succeeding_stage ''GitAnalyzer'' ''GitAnalyzer'',
           failing_stage ''code_analyzer_agent'',
           succeeding_stage ''StrategyPlanner'' ''StrategyPlanner'']"
  by (simp add: git_workflow_def example_impl_failing_def example_impl_def
      git_analyzer_agent_def code_analyzer_agent_def strategy_planner_agent_def)

text \<open>
  Witness for C1: the three stages of \<open>GitWorkflow\<close>, of which the second one fails.
\<close>

theorem C1_short_circuit_witness:
  "status (run (succeeding_stage ''GitAnalyzer'' ''GitAnalyzer'') Map.empty) = Success
   \<and> status (run (failing_stage ''code_analyzer_agent'')
        (apply_deltas Map.empty (deltas (run (succeeding_stage ''GitAnalyzer'' ''GitAnalyzer'') Map.empty))))
       = Failure
   \<and> map fst (results (run_sequential
        [succeeding_stage ''GitAnalyzer'' ''GitAnalyzer'', failing_stage ''code_analyzer_agent'',
         succeeding_stage ''StrategyPlanner'' ''StrategyPlanner''] Map.empty))
       = [''GitAnalyzer'', ''code_analyzer_agent'']
   \<and> final_status (run_sequential
        [succeeding_stage ''GitAnalyzer'' ''GitAnalyzer'', failing_stage ''code_analyzer_agent'',
         succeeding_stage ''StrategyPlanner'' ''StrategyPlanner''] Map.empty) = Failed
   \<and> terminal_state (run_sequential
        [succeeding_stage ''GitAnalyzer'' ''GitAnalyzer'', failing_stage ''code_analyzer_agent'',
         succeeding_stage ''StrategyPlanner'' ''StrategyPlanner''] Map.empty) ''GitAnalyzer''
       = Some (PBool True)
   \<and> terminal_state (run_sequential
        [succeeding_stage ''GitAnalyzer'' ''GitAnalyzer'', failing_stage ''code_analyzer_agent'',
         succeeding_stage ''StrategyPlanner'' ''StrategyPlanner''] Map.empty) ''StrategyPlanner''
       = None"
proof -
  let ?A = "succeeding_stage ''GitAnalyzer'' ''GitAnalyzer''"
  let ?B = "failing_stage ''code_analyzer_agent''"
  let ?C = "succeeding_stage ''StrategyPlanner'' ''StrategyPlanner''"
  let ?st1 = "apply_deltas Map.empty (deltas (run ?A Map.empty))"
  have a: "status (run ?A Map.empty) = Success"
    by (simp add: succeeding_stage_def)
  have b: "status (run ?B ?st1) = Failure"
    by (simp add: failing_stage_def)
  have n: "name ?A = ''GitAnalyzer''" "name ?B = ''code_analyzer_agent''"
    by (simp_all add: succeeding_stage_def failing_stage_def)
  have d: "deltas (run ?B ?st1) = []"
    by (simp add: failing_stage_def)
  have s: "?st1 ''GitAnalyzer'' = Some (PBool True)" "?st1 ''StrategyPlanner'' = None"
    by (simp_all add: succeeding_stage_def apply_deltas_def)
  from C1_short_circuit [OF a refl b, of ?C] n d s a b show ?thesis
    by (simp add: apply_deltas_Nil)
qed

section \<open>Bounded loops\<close>









lemma refinement_loop_descriptor:
  "loop_descriptor_of example_impl pred test_refinement_loop = Some (refinement_loop_example pred)"
  by (simp add: test_refinement_loop_def refinement_loop_example_def)




section \<open>Cloning a repository\<close>

lemmas clone_defs = clone_repository_def clone_repository_try_def target_dir_of_def
  clone_cmd_def commit_cmd_def

lemma clone_timeout:
  assumes "target_dir_of env target_dir = Inr dir"
    and "run_cmd env (clone_cmd branch repository_url dir) (Some 300) = Inl TimeoutExpired"
  shows "clone_repository env repository_url branch target_dir =
     Inr [(''status'', PStr ''error''),
          (''message'', PStr ''Repository clone timed out''),
          (''local_path'', PStr [])]"
  using assms by (simp add: clone_defs split: option.splits)

lemma clone_nonzero:
  assumes "target_dir_of env target_dir = Inr dir"
    and "run_cmd env (clone_cmd branch repository_url dir) (Some 300) = Inr result"
    and "returncode result \<noteq> 0"
  shows "clone_repository env repository_url branch target_dir =
     Inr [(''status'', PStr ''error''),
          (''message'', PStr (''Failed to clone repository: '' @ stderr result)),
          (''local_path'', PStr [])]"
  using assms by (simp add: clone_defs split: option.splits)

lemma clone_exception:
  assumes "target_dir_of env target_dir = Inl (PyException e)
     \<or> (target_dir_of env target_dir = Inr dir
        \<and> run_cmd env (clone_cmd branch repository_url dir) (Some 300) = Inl (PyException e))
     \<or> (target_dir_of env target_dir = Inr dir
        \<and> run_cmd env (clone_cmd branch repository_url dir) (Some 300) = Inr result
        \<and> returncode result = 0
        \<and> run_cmd env (commit_cmd dir) None = Inl (PyException e))"
  shows "clone_repository env repository_url branch target_dir =
     Inr [(''status'', PStr ''error''),
          (''message'', PStr (''Error cloning repository: '' @ e)),
          (''local_path'', PStr [])]"
  using assms by (auto simp: clone_defs split: option.splits)

lemma clone_raises_only_base:
  "clone_repository env repository_url branch target_dir = Inl x \<Longrightarrow> \<exists>b. x = BaseExc b"
  by (auto simp: clone_repository_def split: sum.splits py_exception.splits)

lemma clone_result_shape:
  assumes "clone_repository env repository_url branch target_dir = Inr d"
  shows "(str_entry d ''status'' = Some ''error'' \<and> str_entry d ''local_path'' = Some []
          \<and> (\<exists>m. str_entry d ''message'' = Some m \<and> m \<noteq> []))
       \<or> (str_entry d ''status'' = Some ''success''
          \<and> (\<exists>dir result. target_dir_of env target_dir = Inr dir
                \<and> run_cmd env (clone_cmd branch repository_url dir) (Some 300) = Inr result
                \<and> returncode result = 0))"
proof (cases "clone_repository_try env repository_url branch target_dir")
  case (Inl e)
  with assms show ?thesis
    by (cases e) (auto simp: clone_repository_def str_entry_def)
next
  case (Inr d')
  with assms have "d' = d"
    by (simp add: clone_repository_def)
  with Inr show ?thesis
    by (auto simp: clone_repository_try_def target_dir_of_def clone_cmd_def str_entry_def Let_def
        split: sum.splits option.splits if_splits)
qed

text \<open>
  C7: \<open>clone_repository\<close> does not raise for a failure of the clone. When the clone
  subprocess times out, when it exits with a non-zero code, and when any of the calls
  raises an exception of class \<open>Exception\<close>, the function returns a dictionary with
  status \<open>error\<close>, a diagnostic message and an empty \<open>local_path\<close>. Nothing but an
  exception outside the class \<open>Exception\<close> passes the function, and every dictionary it
  returns is either such an error or a success after a clone that exited with code 0.
\<close>

theorem C7_clone_never_raises:
  "(target_dir_of env target_dir = Inr dir
      \<and> run_cmd env (clone_cmd branch repository_url dir) (Some 300) = Inl TimeoutExpired
     \<longrightarrow> clone_repository env repository_url branch target_dir =
           Inr [(''status'', PStr ''error''),
                (''message'', PStr ''Repository clone timed out''),
                (''local_path'', PStr [])])
   \<and> (target_dir_of env target_dir = Inr dir
      \<and> run_cmd env (clone_cmd branch repository_url dir) (Some 300) = Inr result
      \<and> returncode result \<noteq> 0
     \<longrightarrow> clone_repository env repository_url branch target_dir =
           Inr [(''status'', PStr ''error''),
                (''message'', PStr (''Failed to clone repository: '' @ stderr result)),
                (''local_path'', PStr [])])
   \<and> (target_dir_of env target_dir = Inl (PyException e)
      \<or> (target_dir_of env target_dir = Inr dir
         \<and> run_cmd env (clone_cmd branch repository_url dir) (Some 300) = Inl (PyException e))
      \<or> (target_dir_of env target_dir = Inr dir
         \<and> run_cmd env (clone_cmd branch repository_url dir) (Some 300) = Inr result
         \<and> returncode result = 0
         \<and> run_cmd env (commit_cmd dir) None = Inl (PyException e))
     \<longrightarrow> clone_repository env repository_url branch target_dir =
           Inr [(''status'', PStr ''error''),
                (''message'', PStr (''Error cloning repository: '' @ e)),
                (''local_path'', PStr [])])
   \<and> (clone_repository env repository_url branch target_dir = Inl x \<longrightarrow> (\<exists>b. x = BaseExc b))
   \<and> (clone_repository env repository_url branch target_dir = Inr d
     \<longrightarrow> (str_entry d ''status'' = Some ''error'' \<and> str_entry d ''local_path'' = Some []
           \<and> (\<exists>m. str_entry d ''message'' = Some m \<and> m \<noteq> []))
         \<or> (str_entry d ''status'' = Some ''success''
           \<and> (\<exists>dir result. target_dir_of env target_dir = Inr dir
                 \<and> run_cmd env (clone_cmd branch repository_url dir) (Some 300) = Inr result
                 \<and> returncode result = 0)))"
  using clone_timeout [of env target_dir dir branch repository_url]
    clone_nonzero [of env target_dir dir branch repository_url result]
    clone_exception [of env target_dir e dir branch repository_url result]
    clone_raises_only_base [of env repository_url branch target_dir x]
    clone_result_shape [of env repository_url branch target_dir d]
  by blast


text \<open>
  Witness for C7: a clone that times out, a clone that exits with code 128, a temporary
  directory that cannot be made, and a keyboard interrupt.
\<close>

theorem C7_clone_never_raises_witness:
  "clone_repository
     (fixed_env (Inr ''/tmp/git_analysis_1'') (Inl TimeoutExpired) (Inl (PyException ''unused'')))
     ''https://example.com/repo.git'' ''main'' None
   = Inr [(''status'', PStr ''error''),
          (''message'', PStr ''Repository clone timed out''),
          (''local_path'', PStr [])]
   \<and> clone_repository
     (fixed_env (Inr ''/tmp/git_analysis_1'')
        (Inr \<lparr>returncode = 128, stdout = [], stderr = ''fatal: repository not found''\<rparr>)
        (Inl (PyException ''unused'')))
     ''https://example.com/repo.git'' ''main'' None
   = Inr [(''status'', PStr ''error''),
          (''message'', PStr ''Failed to clone repository: fatal: repository not found''),
          (''local_path'', PStr [])]
   \<and> clone_repository
     (fixed_env (Inl (PyException ''No space left on device'')) (Inl TimeoutExpired)
        (Inl (PyException ''unused'')))
     ''https://example.com/repo.git'' ''main'' None
   = Inr [(''status'', PStr ''error''),
          (''message'', PStr ''Error cloning repository: No space left on device''),
          (''local_path'', PStr [])]
   \<and> clone_repository
     (fixed_env (Inl (BaseExc ''KeyboardInterrupt'')) (Inl TimeoutExpired)
        (Inl (PyException ''unused'')))
     ''https://example.com/repo.git'' ''main'' None
   = Inl (BaseExc ''KeyboardInterrupt'')
   \<and> str_entry [(''status'', PStr ''error''),
          (''message'', PStr ''Repository clone timed out''),
          (''local_path'', PStr [])] ''local_path'' = Some []"
proof -
  let ?url = "''https://example.com/repo.git''"
  let ?dir = "''/tmp/git_analysis_1''"
  let ?unused = "Inl (PyException ''unused'') :: py_exception + completed_process"
  let ?failed = "\<lparr>returncode = 128, stdout = [], stderr = ''fatal: repository not found''\<rparr>"
  let ?env1 = "fixed_env (Inr ?dir) (Inl TimeoutExpired) ?unused"
  let ?env2 = "fixed_env (Inr ?dir) (Inr ?failed) ?unused"
  let ?env3 = "fixed_env (Inl (PyException ''No space left on device'')) (Inl TimeoutExpired) ?unused"
  let ?env4 = "fixed_env (Inl (BaseExc ''KeyboardInterrupt'')) (Inl TimeoutExpired) ?unused"
  let ?timed_out = "[(''status'', PStr ''error''),
          (''message'', PStr ''Repository clone timed out''),
          (''local_path'', PStr [])]"
  have t1: "target_dir_of ?env1 None = Inr ?dir"
    and r1: "run_cmd ?env1 (clone_cmd ''main'' ?url ?dir) (Some 300) = Inl TimeoutExpired"
    by (simp_all add: fixed_env_def target_dir_of_def clone_cmd_def)
  have t2: "target_dir_of ?env2 None = Inr ?dir"
    and r2: "run_cmd ?env2 (clone_cmd ''main'' ?url ?dir) (Some 300) = Inr ?failed"
    and c2: "returncode ?failed \<noteq> 0" and s2: "stderr ?failed = ''fatal: repository not found''"
    by (simp_all add: fixed_env_def target_dir_of_def clone_cmd_def)
  have t3: "target_dir_of ?env3 None = Inl (PyException ''No space left on device'')"
    by (simp add: fixed_env_def target_dir_of_def)
  have x4: "clone_repository ?env4 ?url ''main'' None = Inl (BaseExc ''KeyboardInterrupt'')"
    by (simp add: fixed_env_def clone_repository_def clone_repository_try_def)
  from C7_clone_never_raises [of ?env1 None ?dir "''main''" ?url ?failed "[]"
      "BaseExc []" ?timed_out] t1 r1
  have 1: "clone_repository ?env1 ?url ''main'' None = Inr ?timed_out"
    by blast
  from C7_clone_never_raises [of ?env1 None ?dir "''main''" ?url ?failed "[]"
      "BaseExc []" ?timed_out] 1
  have 5: "str_entry ?timed_out ''local_path'' = Some []"
    by (simp add: str_entry_def)
  from C7_clone_never_raises [of ?env2 None ?dir "''main''" ?url ?failed "[]"
      "BaseExc []" ?timed_out] t2 r2 c2
  have "clone_repository ?env2 ?url ''main'' None
        = Inr [(''status'', PStr ''error''),
          (''message'', PStr (''Failed to clone repository: '' @ stderr ?failed)),
          (''local_path'', PStr [])]"
    by blast
  then have 2: "clone_repository ?env2 ?url ''main'' None
        = Inr [(''status'', PStr ''error''),
          (''message'', PStr ''Failed to clone repository: fatal: repository not found''),
          (''local_path'', PStr [])]"
    by simp
  from C7_clone_never_raises [of ?env3 None ?dir "''main''" ?url ?failed
      "''No space left on device''" "BaseExc []" ?timed_out] t3
  have "clone_repository ?env3 ?url ''main'' None
        = Inr [(''status'', PStr ''error''),
          (''message'', PStr (''Error cloning repository: '' @ ''No space left on device'')),
          (''local_path'', PStr [])]"
    by blast
  then have 3: "clone_repository ?env3 ?url ''main'' None
        = Inr [(''status'', PStr ''error''),
          (''message'', PStr ''Error cloning repository: No space left on device''),
          (''local_path'', PStr [])]"
    by simp
  from C7_clone_never_raises [of ?env4 None ?dir "''main''" ?url ?failed "[]"
      "BaseExc ''KeyboardInterrupt''" ?timed_out] x4
  have 4: "\<exists>b. BaseExc ''KeyboardInterrupt'' = BaseExc b"
    by blast
  from 1 2 3 x4 5 show ?thesis
    by blast
qed

section \<open>Fetching a JIRA ticket\<close>

lemma startswith_decompose: "startswith s p \<Longrightarrow> s = p @ drop (length p) s"
  by (induction s p rule: startswith.induct) auto

lemma hyphen_class: "\<not> is_upper CHR ''-''" "\<not> is_digit CHR ''-''"
  by (simp_all add: is_upper_def is_digit_def)

lemma match_browse_Some:
  assumes "match_browse s = Some g"
  shows "\<exists>project number suf.
           s = ''/browse/'' @ project @ CHR ''-'' # number @ suf
           \<and> g = project @ CHR ''-'' # number
           \<and> project \<noteq> [] \<and> list_all is_upper project
           \<and> number \<noteq> [] \<and> list_all is_digit number"
proof -
  from assms have sw: "startswith s ''/browse/''"
    by (auto simp: match_browse_def split: if_splits)
  define rest where "rest = drop 8 s"
  have "length ''/browse/'' = 8"
    by simp
  with startswith_decompose [OF sw] have s: "s = ''/browse/'' @ rest"
    unfolding rest_def by (simp only:)
  define project where "project = takeWhile is_upper rest"
  from assms sw obtain c ds where cd: "dropWhile is_upper rest = c # ds"
    by (auto simp: match_browse_def rest_def Let_def split: list.splits)
  define number where "number = takeWhile is_digit ds"
  from assms sw cd have g: "project \<noteq> []" "c = CHR ''-''" "number \<noteq> []" "g = project @ c # number"
    by (auto simp: match_browse_def rest_def project_def number_def Let_def split: if_splits)
  have "rest = project @ c # number @ dropWhile is_digit ds"
    using cd takeWhile_dropWhile_id [of is_upper rest] takeWhile_dropWhile_id [of is_digit ds]
    by (simp add: project_def number_def)
  moreover have "list_all is_upper project" "list_all is_digit number"
    by (auto simp: project_def number_def list_all_iff dest: set_takeWhileD)
  ultimately show ?thesis
    using s g by blast
qed

lemma match_browse_segment:
  assumes "project \<noteq> []" and "list_all is_upper project"
    and "number \<noteq> []" and "list_all is_digit number"
  shows "match_browse (''/browse/'' @ project @ CHR ''-'' # number @ suf) \<noteq> None"
proof -
  let ?rest = "project @ CHR ''-'' # number @ suf"
  have tw: "takeWhile is_upper ?rest = project"
    using assms(2) hyphen_class by (simp add: list_all_iff takeWhile_tail)
  have dw: "dropWhile is_upper ?rest = CHR ''-'' # number @ suf"
    using assms(2) hyphen_class by (simp add: list_all_iff)
  from assms(3) obtain d ds where num: "number = d # ds"
    by (cases number) auto
  with assms(4) have "is_digit d" by simp
  with num have "takeWhile is_digit (number @ suf) \<noteq> []"
    by simp
  moreover have "startswith (''/browse/'' @ ?rest) ''/browse/''"
    by (rule startswith_append)
  moreover have "drop 8 (''/browse/'' @ ?rest) = ?rest"
    by simp
  ultimately show ?thesis
    using assms(1) tw dw unfolding match_browse_def by (simp add: Let_def)
qed

lemma re_search_browse_Some:
  "re_search_browse t = Some g \<Longrightarrow>
     g \<noteq> [] \<and> has_browse_segment t"
proof (induction t)
  case Nil
  then show ?case by simp
next
  case (Cons c cs)
  show ?case
  proof (cases "match_browse (c # cs)")
    case None
    with Cons have "g \<noteq> [] \<and> has_browse_segment cs"
      by simp
    then obtain pre project number suf where
      "cs = pre @ ''/browse/'' @ project @ CHR ''-'' # number @ suf"
      "project \<noteq> []" "list_all is_upper project" "number \<noteq> []" "list_all is_digit number"
      and "g \<noteq> []"
      unfolding has_browse_segment_def by blast
    then have "c # cs = (c # pre) @ ''/browse/'' @ project @ CHR ''-'' # number @ suf
      \<and> project \<noteq> [] \<and> list_all is_upper project \<and> number \<noteq> [] \<and> list_all is_digit number"
      by simp
    then have "has_browse_segment (c # cs)"
      unfolding has_browse_segment_def by blast
    with \<open>g \<noteq> []\<close> show ?thesis by simp
  next
    case (Some g')
    with Cons.prems have "g' = g" by simp
    with Some match_browse_Some [of "c # cs" g] obtain project number suf where
      "c # cs = [] @ ''/browse/'' @ project @ CHR ''-'' # number @ suf"
      "g = project @ CHR ''-'' # number"
      "project \<noteq> []" "list_all is_upper project" "number \<noteq> []" "list_all is_digit number"
      by auto
    then show ?thesis
      unfolding has_browse_segment_def by blast
  qed
qed

lemma re_search_browse_append:
  "match_browse s \<noteq> None \<Longrightarrow> re_search_browse (pre @ s) \<noteq> None"
proof (induction pre)
  case Nil
  then show ?case by (cases s) (auto simp: match_browse_def)
next
  case (Cons c pre)
  then show ?case by (auto split: option.splits)
qed

lemma re_search_browse_iff: "re_search_browse t \<noteq> None \<longleftrightarrow> has_browse_segment t"
proof
  assume "re_search_browse t \<noteq> None"
  then show "has_browse_segment t"
    using re_search_browse_Some by blast
next
  assume "has_browse_segment t"
  then obtain pre project number suf where
    t: "t = pre @ ''/browse/'' @ project @ CHR ''-'' # number @ suf"
    and seg: "project \<noteq> []" "list_all is_upper project" "number \<noteq> []" "list_all is_digit number"
    unfolding has_browse_segment_def by blast
  from seg have "match_browse (''/browse/'' @ project @ CHR ''-'' # number @ suf) \<noteq> None"
    by (rule match_browse_segment)
  then show "re_search_browse t \<noteq> None"
    unfolding t by (rule re_search_browse_append)
qed

lemma extract_ticket_id_empty:
  "extract_ticket_id t = [] \<longleftrightarrow> t = [] \<or> (startswith t ''http'' \<and> \<not> has_browse_segment t)"
proof (cases "startswith t ''http''")
  case True
  then have "t \<noteq> []" by auto
  show ?thesis
  proof (cases "re_search_browse t")
    case None
    with True \<open>t \<noteq> []\<close> re_search_browse_iff [of t] show ?thesis
      by (simp add: extract_ticket_id_def)
  next
    case (Some g)
    with True \<open>t \<noteq> []\<close> re_search_browse_iff [of t] re_search_browse_Some [of t g] show ?thesis
      by (simp add: extract_ticket_id_def)
  qed
next
  case False
  then show ?thesis by (simp add: extract_ticket_id_def)
qed


lemma mock_ticket_known:
  assumes "map_of mock_ticket_data ticket_id = Some ticket_data"
  shows "ticket_id \<in> {''PROJ-123'', ''STORY-456''}
    \<and> (\<exists>vs. those (map (map_of ticket_data) ticket_fields) = Some vs)"
  using assms by (auto simp: mock_ticket_data_def ticket_fields_def split: if_splits)

lemma mock_ticket_unknown:
  "ticket_id \<notin> {''PROJ-123'', ''STORY-456''} \<Longrightarrow> map_of mock_ticket_data ticket_id = None"
  by (simp add: mock_ticket_data_def)

lemma fetch_try_id:
  assumes "\<not> (startswith t ''http'' \<and> b = [] \<and> isl (urlparse t))"
  shows "fetch_jira_ticket_try urlparse t b =
     (let ticket_id = extract_ticket_id t in
      if ticket_id = []
      then Inr [(''status'', PStr ''error''),
                (''message'', PStr ''Invalid ticket URL or ID''),
                (''ticket'', PNone)]
      else
        (case map_of mock_ticket_data ticket_id of
           Some ticket_data \<Rightarrow>
             (case those (map (map_of ticket_data) ticket_fields) of
                None \<Rightarrow> Inl (PyException ''KeyError'')
              | Some vs \<Rightarrow>
                  Inr [(''status'', PStr ''success''),
                       (''message'', PStr (''Successfully fetched ticket '' @ ticket_id)),
                       (''ticket'', PDict ((''ticket_id'', PStr ticket_id) # zip ticket_fields vs))])
         | None \<Rightarrow>
             Inr [(''status'', PStr ''success''),
                  (''message'', PStr (''Successfully fetched ticket '' @ ticket_id)),
                  (''ticket'', PDict
                     [(''ticket_id'', PStr ticket_id),
                      (''title'', PStr (''Generic ticket '' @ ticket_id)),
                      (''description'', PStr ''This is a mock ticket for demonstration purposes.''),
                      (''status'', PStr ''Open''),
                      (''priority'', PStr ''Medium''),
                      (''assignee'', PStr ''unassigned''),
                      (''reporter'', PStr ''system''),
                      (''acceptance_criteria'', PList
                         [PStr ''Implement the required functionality'',
                          PStr ''Add appropriate error handling'',
                          PStr ''Include unit tests'',
                          PStr ''Update documentation'']),
                      (''labels'', PList [PStr ''feature'', PStr ''development'']),
                      (''components'', PList [PStr ''Backend''])])]))"
proof (cases "startswith t ''http''")
  case False
  then show ?thesis
    by (simp add: fetch_jira_ticket_try_def extract_ticket_id_def Let_def)
next
  case True
  show ?thesis
  proof (cases "b = []")
    case False
    with True show ?thesis
      by (simp add: fetch_jira_ticket_try_def extract_ticket_id_def Let_def)
  next
    case b: True
    with True assms obtain parsed where "urlparse t = Inr parsed"
      by (cases "urlparse t") auto
    with True b show ?thesis
      by (simp add: fetch_jira_ticket_try_def extract_ticket_id_def Let_def)
  qed
qed

lemma fetch_invalid:
  assumes "\<not> (startswith t ''http'' \<and> b = [] \<and> isl (urlparse t))"
    and "extract_ticket_id t = []"
  shows "fetch_jira_ticket urlparse t b =
     Inr [(''status'', PStr ''error''),
          (''message'', PStr ''Invalid ticket URL or ID''),
          (''ticket'', PNone)]"
  using assms(2) by (simp add: fetch_jira_ticket_def fetch_try_id [of t b urlparse, OF assms(1)] Let_def)

lemma fetch_success:
  assumes "\<not> (startswith t ''http'' \<and> b = [] \<and> isl (urlparse t))"
    and "extract_ticket_id t \<noteq> []"
  shows "\<exists>tk. fetch_jira_ticket urlparse t b =
           Inr [(''status'', PStr ''success''),
                (''message'', PStr (''Successfully fetched ticket '' @ extract_ticket_id t)),
                (''ticket'', PDict tk)]
         \<and> map_of tk ''ticket_id'' = Some (PStr (extract_ticket_id t))
         \<and> (extract_ticket_id t \<notin> {''PROJ-123'', ''STORY-456''}
              \<longrightarrow> map_of tk ''title'' = Some (PStr (''Generic ticket '' @ extract_ticket_id t)))"
proof (cases "map_of mock_ticket_data (extract_ticket_id t)")
  case None
  with assms(2) show ?thesis
    by (simp add: fetch_jira_ticket_def fetch_try_id [of t b urlparse, OF assms(1)] Let_def)
next
  case (Some ticket_data)
  from mock_ticket_known [OF Some] obtain vs where
    "extract_ticket_id t \<in> {''PROJ-123'', ''STORY-456''}"
    "those (map (map_of ticket_data) ticket_fields) = Some vs"
    by blast
  with Some assms(2) show ?thesis
    by (simp add: fetch_jira_ticket_def fetch_try_id [of t b urlparse, OF assms(1)] Let_def)
qed

lemma fetch_parse_error:
  assumes "startswith t ''http''" and "b = []" and "urlparse t = Inl (PyException e)"
  shows "fetch_jira_ticket urlparse t b =
     Inr [(''status'', PStr ''error''),
          (''message'', PStr (''Error fetching JIRA ticket: '' @ e)),
          (''ticket'', PNone)]"
  using assms by (simp add: fetch_jira_ticket_def fetch_jira_ticket_try_def Let_def)

lemma fetch_status:
  assumes "fetch_jira_ticket urlparse t b = Inr d"
  shows "str_entry d ''status'' = Some ''error'' \<or> str_entry d ''status'' = Some ''success''"
proof (cases "startswith t ''http'' \<and> b = [] \<and> isl (urlparse t)")
  case True
  then obtain e where "urlparse t = Inl e"
    by (cases "urlparse t") auto
  with True assms show ?thesis
    by (cases e) (auto simp: fetch_jira_ticket_def fetch_jira_ticket_try_def Let_def str_entry_def)
next
  case False
  show ?thesis
  proof (cases "extract_ticket_id t = []")
    case True
    with fetch_invalid [of t b urlparse, OF False True] assms show ?thesis
      by (auto simp: str_entry_def)
  next
    case ne: False
    with fetch_success [of t b urlparse, OF False ne] assms show ?thesis
      by (auto simp: str_entry_def)
  qed
qed

text \<open>
  C9, as stated, fails: for a URL whose ticket id is extracted as \<open>AB-1\<close>, but whose
  host part has an opening square bracket without a closing one, the call of
  \<open>urlparse\<close> raises, the handler catches it, and the result has status \<open>error\<close>
  although the extracted ticket id is not empty.
\<close>

theorem C9_error_despite_ticket_id:
  "extract_ticket_id ''http://[/browse/AB-1'' = ''AB-1''
   \<and> fetch_jira_ticket urlparse_py ''http://[/browse/AB-1'' [] =
       Inr [(''status'', PStr ''error''),
            (''message'', PStr ''Error fetching JIRA ticket: Invalid IPv6 URL''),
            (''ticket'', PNone)]"
  by code_simp

text \<open>
  C9 (amended): the extracted ticket id is empty exactly when the input is empty, or
  starts with \<open>http\<close> and holds no segment \<open>/browse/<PROJECT>-<number>\<close>. Unless the
  input starts with \<open>http\<close>, no base URL is given and parsing the URL raises,
  \<open>fetch_jira_ticket\<close> returns status \<open>error\<close> with ticket \<open>None\<close> when the
  extracted id is empty, and otherwise status \<open>success\<close> with a ticket whose
  \<open>ticket_id\<close> is the extracted id, a generic ticket for every id other than
  \<open>PROJ-123\<close> and \<open>STORY-456\<close>. When parsing the URL raises an exception of class
  \<open>Exception\<close>, the result has status \<open>error\<close> with that exception's text. No
  other status than \<open>error\<close> and \<open>success\<close> is produced.
\<close>

theorem C9_fetch_jira_ticket:
  "(extract_ticket_id t = [] \<longleftrightarrow> t = [] \<or> (startswith t ''http'' \<and> \<not> has_browse_segment t))
   \<and> (\<not> (startswith t ''http'' \<and> b = [] \<and> isl (urlparse t)) \<and> extract_ticket_id t = []
       \<longrightarrow> fetch_jira_ticket urlparse t b =
             Inr [(''status'', PStr ''error''),
                  (''message'', PStr ''Invalid ticket URL or ID''),
                  (''ticket'', PNone)])
   \<and> (\<not> (startswith t ''http'' \<and> b = [] \<and> isl (urlparse t)) \<and> extract_ticket_id t \<noteq> []
       \<longrightarrow> (\<exists>tk. fetch_jira_ticket urlparse t b =
                   Inr [(''status'', PStr ''success''),
                        (''message'', PStr (''Successfully fetched ticket '' @ extract_ticket_id t)),
                        (''ticket'', PDict tk)]
                 \<and> map_of tk ''ticket_id'' = Some (PStr (extract_ticket_id t))
                 \<and> (extract_ticket_id t \<notin> {''PROJ-123'', ''STORY-456''}
                      \<longrightarrow> map_of tk ''title''
                            = Some (PStr (''Generic ticket '' @ extract_ticket_id t)))))
   \<and> (startswith t ''http'' \<and> b = [] \<and> urlparse t = Inl (PyException e)
       \<longrightarrow> fetch_jira_ticket urlparse t b =
             Inr [(''status'', PStr ''error''),
                  (''message'', PStr (''Error fetching JIRA ticket: '' @ e)),
                  (''ticket'', PNone)])
   \<and> (fetch_jira_ticket urlparse t b = Inr d
       \<longrightarrow> str_entry d ''status'' = Some ''error'' \<or> str_entry d ''status'' = Some ''success'')"
  using extract_ticket_id_empty [of t] fetch_invalid [of t b urlparse]
    fetch_success [of t b urlparse] fetch_parse_error [of t b urlparse e]
    fetch_status [of urlparse t b d]
  by blast


text \<open>
  Witness for C9 (amended): a URL with a ticket id outside the samples, a URL without a
  ticket id, and a URL that cannot be parsed.
\<close>

theorem C9_fetch_jira_ticket_witness:
  "extract_ticket_id ''http://jira.example.com/browse/ZZ-9'' = ''ZZ-9''
   \<and> \<not> isl (urlparse_py ''http://jira.example.com/browse/ZZ-9'')
   \<and> (\<exists>tk. fetch_jira_ticket urlparse_py ''http://jira.example.com/browse/ZZ-9'' [] =
              Inr [(''status'', PStr ''success''),
                   (''message'', PStr ''Successfully fetched ticket ZZ-9''),
                   (''ticket'', PDict tk)]
            \<and> map_of tk ''ticket_id'' = Some (PStr ''ZZ-9'')
            \<and> map_of tk ''title'' = Some (PStr ''Generic ticket ZZ-9''))
   \<and> extract_ticket_id ''http://jira.example.com/issues'' = []
   \<and> \<not> isl (urlparse_py ''http://jira.example.com/issues'')
   \<and> fetch_jira_ticket urlparse_py ''http://jira.example.com/issues'' [] =
         Inr [(''status'', PStr ''error''),
              (''message'', PStr ''Invalid ticket URL or ID''),
              (''ticket'', PNone)]
   \<and> \<not> has_browse_segment ''http://jira.example.com/issues''
   \<and> startswith ''http://[/browse/AB-1'' ''http''
   \<and> urlparse_py ''http://[/browse/AB-1'' = Inl (PyException ''Invalid IPv6 URL'')
   \<and> fetch_jira_ticket urlparse_py ''http://[/browse/AB-1'' [] =
         Inr [(''status'', PStr ''error''),
              (''message'', PStr ''Error fetching JIRA ticket: Invalid IPv6 URL''),
              (''ticket'', PNone)]"
proof -
  let ?t = "''http://jira.example.com/browse/ZZ-9''"
  let ?u = "''http://jira.example.com/issues''"
  let ?v = "''http://[/browse/AB-1''"
  let ?invalid = "[(''status'', PStr ''error''),
              (''message'', PStr ''Invalid ticket URL or ID''),
              (''ticket'', PNone)]"
  have t: "extract_ticket_id ?t = ''ZZ-9''" "\<not> isl (urlparse_py ?t)"
    by code_simp+
  then have t': "\<not> (startswith ?t ''http'' \<and> ([] :: string) = [] \<and> isl (urlparse_py ?t))"
    "extract_ticket_id ?t \<noteq> []" "extract_ticket_id ?t \<notin> {''PROJ-123'', ''STORY-456''}"
    by simp_all
  have u: "extract_ticket_id ?u = []" "\<not> isl (urlparse_py ?u)" "startswith ?u ''http''" "?u \<noteq> []"
    by code_simp+
  then have u': "\<not> (startswith ?u ''http'' \<and> ([] :: string) = [] \<and> isl (urlparse_py ?u))"
    by simp
  have v: "startswith ?v ''http''" "urlparse_py ?v = Inl (PyException ''Invalid IPv6 URL'')"
    by code_simp+
  from C9_fetch_jira_ticket [of ?t "[]" urlparse_py "[]" ?invalid] t'
  have "\<exists>tk. fetch_jira_ticket urlparse_py ?t [] =
              Inr [(''status'', PStr ''success''),
                   (''message'', PStr (''Successfully fetched ticket '' @ extract_ticket_id ?t)),
                   (''ticket'', PDict tk)]
            \<and> map_of tk ''ticket_id'' = Some (PStr (extract_ticket_id ?t))
            \<and> map_of tk ''title'' = Some (PStr (''Generic ticket '' @ extract_ticket_id ?t))"
    by blast
  then have 1: "\<exists>tk. fetch_jira_ticket urlparse_py ?t [] =
              Inr [(''status'', PStr ''success''),
                   (''message'', PStr ''Successfully fetched ticket ZZ-9''),
                   (''ticket'', PDict tk)]
            \<and> map_of tk ''ticket_id'' = Some (PStr ''ZZ-9'')
            \<and> map_of tk ''title'' = Some (PStr ''Generic ticket ZZ-9'')"
    by (simp add: t(1))
  from C9_fetch_jira_ticket [of ?u "[]" urlparse_py "[]" ?invalid] u(1) u'
  have 2: "fetch_jira_ticket urlparse_py ?u [] = Inr ?invalid"
    by blast
  from C9_fetch_jira_ticket [of ?u "[]" urlparse_py "[]" ?invalid] u(1) u(4)
  have 3: "\<not> has_browse_segment ?u"
    by blast
  from C9_fetch_jira_ticket [of ?v "[]" urlparse_py "''Invalid IPv6 URL''" ?invalid] v
  have "fetch_jira_ticket urlparse_py ?v [] =
         Inr [(''status'', PStr ''error''),
              (''message'', PStr (''Error fetching JIRA ticket: '' @ ''Invalid IPv6 URL'')),
              (''ticket'', PNone)]"
    by blast
  then have 4: "fetch_jira_ticket urlparse_py ?v [] =
         Inr [(''status'', PStr ''error''),
              (''message'', PStr ''Error fetching JIRA ticket: Invalid IPv6 URL''),
              (''ticket'', PNone)]"
    by simp
  from t u v 1 2 3 4 show ?thesis
    by blast
qed

section \<open>Extracting a PDF document\<close>

lemma mock_pdf_user_manual:
  "\<exists>cd title pages content secs.
     map_of mock_pdf_content ''user_manual.pdf'' = Some cd
     \<and> those (map (map_of cd) [''title'', ''total_pages'', ''content'', ''sections''])
         = Some [PStr title, PInt pages, content, PList secs]"
  by (simp add: mock_pdf_content_def)

lemma mock_pdf_api_spec:
  "\<exists>cd title pages content secs.
     map_of mock_pdf_content ''api_spec.pdf'' = Some cd
     \<and> those (map (map_of cd) [''title'', ''total_pages'', ''content'', ''sections''])
         = Some [PStr title, PInt pages, content, PList secs]"
  by (simp add: mock_pdf_content_def)

lemma extract_url:
  "is_url p \<Longrightarrow> extract_pdf_content path_exists p =
     Inr [(''status'', PStr ''error''),
          (''message'', PStr ''PDF URL download not implemented in this demo''),
          (''content'', PStr [])]"
  by (auto simp: is_url_def extract_pdf_content_def extract_pdf_content_try_def)

lemma extract_missing:
  "\<not> is_url p \<Longrightarrow> \<not> path_exists p \<Longrightarrow> extract_pdf_content path_exists p =
     Inr [(''status'', PStr ''error''),
          (''message'', PStr (''PDF file not found: '' @ p)),
          (''content'', PStr [])]"
  by (simp add: is_url_def extract_pdf_content_def extract_pdf_content_try_def)

lemma extract_existing:
  assumes "\<not> is_url p" and "path_exists p"
  shows "\<exists>d title pages secs. extract_pdf_content path_exists p = Inr d
     \<and> str_entry d ''status'' = Some ''success''
     \<and> map_of d ''document_title'' = Some (PStr title)
     \<and> map_of d ''total_pages'' = Some (PInt pages)
     \<and> map_of d ''sections'' = Some (PList secs)
     \<and> map_of d ''file_path'' = Some (PStr p)"
proof -
  let ?filename = "lower (basename p)"
  consider (user) "str_contains ?filename ''user'' \<or> str_contains ?filename ''manual''
                   \<or> str_contains ?filename ''requirements''"
    | (api) "\<not> (str_contains ?filename ''user'' \<or> str_contains ?filename ''manual''
                   \<or> str_contains ?filename ''requirements'')"
            "str_contains ?filename ''api'' \<or> str_contains ?filename ''spec''"
    | (generic) "\<not> (str_contains ?filename ''user'' \<or> str_contains ?filename ''manual''
                   \<or> str_contains ?filename ''requirements'')"
            "\<not> (str_contains ?filename ''api'' \<or> str_contains ?filename ''spec'')"
    by blast
  then show ?thesis
  proof cases
    case user
    from mock_pdf_user_manual obtain cd title pages content secs where
      "map_of mock_pdf_content ''user_manual.pdf'' = Some cd"
      "those (map (map_of cd) [''title'', ''total_pages'', ''content'', ''sections''])
         = Some [PStr title, PInt pages, content, PList secs]"
      by blast
    with assms user show ?thesis
      unfolding extract_pdf_content_def extract_pdf_content_try_def is_url_def str_entry_def
      by (simp add: Let_def del: those.simps map_of.simps)
  next
    case api
    from mock_pdf_api_spec obtain cd title pages content secs where
      "map_of mock_pdf_content ''api_spec.pdf'' = Some cd"
      "those (map (map_of cd) [''title'', ''total_pages'', ''content'', ''sections''])
         = Some [PStr title, PInt pages, content, PList secs]"
      by blast
    with assms api show ?thesis
      unfolding extract_pdf_content_def extract_pdf_content_try_def is_url_def str_entry_def
      by (simp add: Let_def del: those.simps map_of.simps)
  next
    case generic
    with assms show ?thesis
      unfolding extract_pdf_content_def extract_pdf_content_try_def is_url_def str_entry_def
      by (simp add: Let_def)
  qed
qed

text \<open>
  C10: \<open>extract_pdf_content\<close> returns status \<open>error\<close> for every input that starts
  with \<open>http://\<close> or \<open>https://\<close>, and for every other path that does not exist on
  disk; for a path that is not such a URL and exists it returns status \<open>success\<close> with
  a document title, a page count and sections. So the status is \<open>success\<close> exactly when
  the input is an existing local path.
\<close>

theorem C10_extract_pdf_content:
  "(is_url p \<longrightarrow> extract_pdf_content path_exists p =
       Inr [(''status'', PStr ''error''),
            (''message'', PStr ''PDF URL download not implemented in this demo''),
            (''content'', PStr [])])
   \<and> (\<not> is_url p \<and> \<not> path_exists p \<longrightarrow> extract_pdf_content path_exists p =
       Inr [(''status'', PStr ''error''),
            (''message'', PStr (''PDF file not found: '' @ p)),
            (''content'', PStr [])])
   \<and> (\<not> is_url p \<and> path_exists p \<longrightarrow>
       (\<exists>d title pages secs. extract_pdf_content path_exists p = Inr d
          \<and> str_entry d ''status'' = Some ''success''
          \<and> map_of d ''document_title'' = Some (PStr title)
          \<and> map_of d ''total_pages'' = Some (PInt pages)
          \<and> map_of d ''sections'' = Some (PList secs)
          \<and> map_of d ''file_path'' = Some (PStr p)))
   \<and> ((\<exists>d. extract_pdf_content path_exists p = Inr d \<and> str_entry d ''status'' = Some ''success'')
       \<longleftrightarrow> \<not> is_url p \<and> path_exists p)"
proof -
  have a: "is_url p \<longrightarrow> extract_pdf_content path_exists p =
       Inr [(''status'', PStr ''error''),
            (''message'', PStr ''PDF URL download not implemented in this demo''),
            (''content'', PStr [])]"
    by (simp add: extract_url)
  have b: "\<not> is_url p \<and> \<not> path_exists p \<longrightarrow> extract_pdf_content path_exists p =
       Inr [(''status'', PStr ''error''),
            (''message'', PStr (''PDF file not found: '' @ p)),
            (''content'', PStr [])]"
    by (simp add: extract_missing)
  have c: "\<not> is_url p \<and> path_exists p \<longrightarrow>
       (\<exists>d title pages secs. extract_pdf_content path_exists p = Inr d
          \<and> str_entry d ''status'' = Some ''success''
          \<and> map_of d ''document_title'' = Some (PStr title)
          \<and> map_of d ''total_pages'' = Some (PInt pages)
          \<and> map_of d ''sections'' = Some (PList secs)
          \<and> map_of d ''file_path'' = Some (PStr p))"
    using extract_existing [of p path_exists] by blast
  have d: "(\<exists>d. extract_pdf_content path_exists p = Inr d \<and> str_entry d ''status'' = Some ''success'')
       \<longleftrightarrow> \<not> is_url p \<and> path_exists p"
  proof
    assume "\<exists>d. extract_pdf_content path_exists p = Inr d \<and> str_entry d ''status'' = Some ''success''"
    then obtain d where d: "extract_pdf_content path_exists p = Inr d"
      "str_entry d ''status'' = Some ''success''"
      by blast
    show "\<not> is_url p \<and> path_exists p"
    proof (rule ccontr)
      assume "\<not> (\<not> is_url p \<and> path_exists p)"
      then consider "is_url p" | "\<not> is_url p" "\<not> path_exists p"
        by blast
      then show False
      proof cases
        case 1
        with a d show False by (auto simp: str_entry_def)
      next
        case 2
        with b d show False by (auto simp: str_entry_def)
      qed
    qed
  next
    assume "\<not> is_url p \<and> path_exists p"
    with c show "\<exists>d. extract_pdf_content path_exists p = Inr d \<and> str_entry d ''status'' = Some ''success''"
      by blast
  qed
  from a b c d show ?thesis by blast
qed


text \<open>
  Witness for C10: a URL, a path that is missing, and a path that exists, on a file
  system that holds \<open>/docs/user_manual.pdf\<close> only.
\<close>

theorem C10_extract_pdf_content_witness:
  "is_url ''https://example.com/a.pdf''
   \<and> extract_pdf_content (only_file ''/docs/user_manual.pdf'') ''https://example.com/a.pdf'' =
       Inr [(''status'', PStr ''error''),
            (''message'', PStr ''PDF URL download not implemented in this demo''),
            (''content'', PStr [])]
   \<and> \<not> is_url ''/docs/missing.pdf''
   \<and> \<not> only_file ''/docs/user_manual.pdf'' ''/docs/missing.pdf''
   \<and> extract_pdf_content (only_file ''/docs/user_manual.pdf'') ''/docs/missing.pdf'' =
       Inr [(''status'', PStr ''error''),
            (''message'', PStr ''PDF file not found: /docs/missing.pdf''),
            (''content'', PStr [])]
   \<and> \<not> is_url ''/docs/user_manual.pdf''
   \<and> only_file ''/docs/user_manual.pdf'' ''/docs/user_manual.pdf''
   \<and> (\<exists>d title pages secs.
         extract_pdf_content (only_file ''/docs/user_manual.pdf'') ''/docs/user_manual.pdf'' = Inr d
         \<and> str_entry d ''status'' = Some ''success''
         \<and> map_of d ''document_title'' = Some (PStr title)
         \<and> map_of d ''total_pages'' = Some (PInt pages)
         \<and> map_of d ''sections'' = Some (PList secs)
         \<and> map_of d ''file_path'' = Some (PStr ''/docs/user_manual.pdf''))"
proof -
  let ?fs = "only_file ''/docs/user_manual.pdf''"
  have u: "is_url ''https://example.com/a.pdf''"
    by (simp add: is_url_def)
  have m: "\<not> is_url ''/docs/missing.pdf''" "\<not> ?fs ''/docs/missing.pdf''"
    by (simp_all add: is_url_def only_file_def)
  have e: "\<not> is_url ''/docs/user_manual.pdf''" "?fs ''/docs/user_manual.pdf''"
    by (simp_all add: is_url_def only_file_def)
  from C10_extract_pdf_content [of "''https://example.com/a.pdf''" ?fs] u
  have 1: "extract_pdf_content ?fs ''https://example.com/a.pdf'' =
       Inr [(''status'', PStr ''error''),
            (''message'', PStr ''PDF URL download not implemented in this demo''),
            (''content'', PStr [])]"
    by blast
  from C10_extract_pdf_content [of "''/docs/missing.pdf''" ?fs] m
  have "extract_pdf_content ?fs ''/docs/missing.pdf'' =
       Inr [(''status'', PStr ''error''),
            (''message'', PStr (''PDF file not found: '' @ ''/docs/missing.pdf'')),
            (''content'', PStr [])]"
    by blast
  then have 2: "extract_pdf_content ?fs ''/docs/missing.pdf'' =
       Inr [(''status'', PStr ''error''),
            (''message'', PStr ''PDF file not found: /docs/missing.pdf''),
            (''content'', PStr [])]"
    by simp
  from C10_extract_pdf_content [of "''/docs/user_manual.pdf''" ?fs] e
  have 3: "\<exists>d title pages secs.
         extract_pdf_content ?fs ''/docs/user_manual.pdf'' = Inr d
         \<and> str_entry d ''status'' = Some ''success''
         \<and> map_of d ''document_title'' = Some (PStr title)
         \<and> map_of d ''total_pages'' = Some (PInt pages)
         \<and> map_of d ''sections'' = Some (PList secs)
         \<and> map_of d ''file_path'' = Some (PStr ''/docs/user_manual.pdf'')"
    by blast
  from u m e 1 2 3 show ?thesis
    by blast
qed

end
